theory Spec2Isabelle
  imports Complex_Main "HOL-Library.Word" "HOL-Library.Signed_Division"
begin

section \<open>Go strings as byte lists\<close>

text \<open>
  A Go string is a sequence of bytes; \<^typ>\<open>string\<close> is a list of 8-bit characters, so
  the embedding is byte for byte. Text of the source that is not ASCII (the Chinese
  messages) is given by its UTF-8 bytes. The functions below are those of Go's package
  \<^verbatim>\<open>strings\<close> that the program calls. \<^verbatim>\<open>ToLower\<close> is given on ASCII: bytes
  from 0x80 on are left as they are (Go would also fold the case of letters beyond ASCII
  and replace bytes that are not UTF-8), so the embedding is that of the program on
  names and list entries in ASCII.
\<close>

definition HasPrefix :: "string \<Rightarrow> string \<Rightarrow> bool" where
  "HasPrefix s p = (take (length p) s = p)"

definition HasSuffix :: "string \<Rightarrow> string \<Rightarrow> bool" where
  "HasSuffix s p = (length p \<le> length s \<and> drop (length s - length p) s = p)"

definition TrimPrefix :: "string \<Rightarrow> string \<Rightarrow> string" where
  "TrimPrefix s p = (if HasPrefix s p then drop (length p) s else s)"

definition TrimSuffix :: "string \<Rightarrow> string \<Rightarrow> string" where
  "TrimSuffix s p = (if HasSuffix s p then take (length s - length p) s else s)"

text \<open>\<^verbatim>\<open>strings.Index\<close>: the offset of the first occurrence, \<open>None\<close> for Go's -1.\<close>

fun Index :: "string \<Rightarrow> string \<Rightarrow> nat option" where
  "Index [] sub = (if sub = [] then Some 0 else None)"
| "Index (c # cs) sub =
     (if HasPrefix (c # cs) sub then Some 0 else map_option Suc (Index cs sub))"

text \<open>\<^verbatim>\<open>strings.LastIndex\<close>: the offset of the last occurrence.\<close>

fun LastIndex :: "string \<Rightarrow> string \<Rightarrow> nat option" where
  "LastIndex [] sub = (if sub = [] then Some 0 else None)"
| "LastIndex (c # cs) sub =
     (case LastIndex cs sub of
        Some i \<Rightarrow> Some (Suc i)
      | None \<Rightarrow> if HasPrefix (c # cs) sub then Some 0 else None)"

definition Contains :: "string \<Rightarrow> string \<Rightarrow> bool" where
  "Contains s sub = (Index s sub \<noteq> None)"

text \<open>
  \<^verbatim>\<open>strings.Split(s, sep)\<close> for a separator of one byte, which is how the program
  calls it (\<^verbatim>\<open>"/"\<close>): the pieces between the separators, one piece more than there
  are separators.
\<close>

fun Split :: "string \<Rightarrow> char \<Rightarrow> string list" where
  "Split [] sep = [[]]"
| "Split (c # cs) sep =
     (if c = sep then [] # Split cs sep
      else (case Split cs sep of
              [] \<Rightarrow> [[c]]
            | p # ps \<Rightarrow> (c # p) # ps))"

text \<open>\<^verbatim>\<open>strings.Replace(s, old, new, 1)\<close>: the first occurrence only.\<close>

definition Replace1 :: "string \<Rightarrow> string \<Rightarrow> string \<Rightarrow> string" where
  "Replace1 s old new =
     (case Index s old of
        None \<Rightarrow> s
      | Some i \<Rightarrow> take i s @ new @ drop (i + length old) s)"

definition lower_byte :: "char \<Rightarrow> char" where
  "lower_byte c =
     (let n = (of_char c :: nat) in if 65 \<le> n \<and> n \<le> 90 then char_of (n + 32) else c)"

definition ToLower :: "string \<Rightarrow> string" where
  "ToLower s = map lower_byte s"

text \<open>
  \<^verbatim>\<open>strings.TrimSpace\<close> removes the white space of Unicode at both ends. These are
  the UTF-8 encodings of the characters \<^verbatim>\<open>unicode.IsSpace\<close> takes: the six of
  ASCII, U+0085, U+00A0, U+1680, U+2000 to U+200A, U+2028, U+2029, U+202F, U+205F and
  U+3000.
\<close>

definition space_runes :: "string list" where
  "space_runes =
     [[CHR 0x09], [CHR 0x0A], [CHR 0x0B], [CHR 0x0C], [CHR 0x0D], [CHR 0x20],
      [CHR 0xC2, CHR 0x85], [CHR 0xC2, CHR 0xA0], [CHR 0xE1, CHR 0x9A, CHR 0x80],
      [CHR 0xE2, CHR 0x80, CHR 0x80], [CHR 0xE2, CHR 0x80, CHR 0x81],
      [CHR 0xE2, CHR 0x80, CHR 0x82], [CHR 0xE2, CHR 0x80, CHR 0x83],
      [CHR 0xE2, CHR 0x80, CHR 0x84], [CHR 0xE2, CHR 0x80, CHR 0x85],
      [CHR 0xE2, CHR 0x80, CHR 0x86], [CHR 0xE2, CHR 0x80, CHR 0x87],
      [CHR 0xE2, CHR 0x80, CHR 0x88], [CHR 0xE2, CHR 0x80, CHR 0x89],
      [CHR 0xE2, CHR 0x80, CHR 0x8A], [CHR 0xE2, CHR 0x80, CHR 0xA8],
      [CHR 0xE2, CHR 0x80, CHR 0xA9], [CHR 0xE2, CHR 0x80, CHR 0xAF],
      [CHR 0xE2, CHR 0x81, CHR 0x9F], [CHR 0xE3, CHR 0x80, CHR 0x80]]"

text \<open>Removing, as long as there is one, a piece of the list the text begins with.\<close>

function trim_prefixes :: "string list \<Rightarrow> string \<Rightarrow> string" where
  "trim_prefixes rs s =
     (case filter (\<lambda>r. r \<noteq> [] \<and> HasPrefix s r) rs of
        [] \<Rightarrow> s
      | r # _ \<Rightarrow> trim_prefixes rs (drop (length r) s))"
  by pat_completeness auto
termination
proof (relation "measure (\<lambda>(rs, s). length s)")
  show "wf (measure (\<lambda>(rs, s). length s))" by simp
next
  fix rs :: "string list" and s r :: string and rest
  assume "filter (\<lambda>r. r \<noteq> [] \<and> HasPrefix s r) rs = r # rest"
  then have "r \<in> set (filter (\<lambda>r. r \<noteq> [] \<and> HasPrefix s r) rs)" by simp
  then have "r \<noteq> []" and "take (length r) s = r" by (simp_all add: HasPrefix_def)
  then have "s \<noteq> []" by auto
  with \<open>r \<noteq> []\<close> show "((rs, drop (length r) s), (rs, s)) \<in> measure (\<lambda>(rs, s). length s)"
    by simp
qed

declare trim_prefixes.simps [simp del]

definition TrimSpace :: "string \<Rightarrow> string" where
  "TrimSpace s =
     rev (trim_prefixes (map rev space_runes) (rev (trim_prefixes space_runes s)))"

subsection \<open>Numbers as text\<close>

text \<open>\<^verbatim>\<open>%d\<close> of \<^verbatim>\<open>fmt.Sprintf\<close>, and \<^verbatim>\<open>strconv.ParseInt(s, 10, 64)\<close>.\<close>

function show_nat :: "nat \<Rightarrow> string" where
  "show_nat n =
     (if n < 10 then [''0123456789'' ! n]
      else show_nat (n div 10) @ [''0123456789'' ! (n mod 10)])"
  by pat_completeness auto
termination
  by (relation "measure id") auto

declare show_nat.simps [simp del]

definition show_int :: "int \<Rightarrow> string" where
  "show_int i = (if i < 0 then ''-'' @ show_nat (nat (- i)) else show_nat (nat i))"

definition is_digit :: "char \<Rightarrow> bool" where
  "is_digit c = (48 \<le> (of_char c :: nat) \<and> (of_char c :: nat) \<le> 57)"

definition digits_value :: "string \<Rightarrow> int" where
  "digits_value ds = foldl (\<lambda>v c. 10 * v + (of_char c - 48)) 0 ds"

definition ParseInt :: "string \<Rightarrow> int option" where
  "ParseInt s =
     (let (neg, ds) =
            (case s of
               c # r \<Rightarrow> if c = CHR ''+'' then (False, r)
                        else if c = CHR ''-'' then (True, r) else (False, s)
             | [] \<Rightarrow> (False, s));
          v = (if neg then - digits_value ds else digits_value ds)
      in if ds = [] \<or> \<not> list_all is_digit ds then None
         else if v < - (2 ^ 63) \<or> 2 ^ 63 \<le> v then None
         else Some v)"

section \<open>The access controller\<close>

text \<open>The messages of the access controller, as the UTF-8 bytes of the source's literals.\<close>

definition msg_not_in_docker_whitelist :: string where
  "msg_not_in_docker_whitelist = map char_of
     [0xE4, 0xB8, 0x8D, 0xE5, 0x9C, 0xA8, 0x44, 0x6F, 0x63, 0x6B, 0x65, 0x72, 0xE9, 0x95,
      0x9C, 0xE5, 0x83, 0x8F, 0xE7, 0x99, 0xBD, 0xE5, 0x90, 0x8D, 0xE5, 0x8D, 0x95, 0xE5,
      0x86, 0x85 :: nat]"

definition msg_docker_in_blacklist :: string where
  "msg_docker_in_blacklist = map char_of
     [0x44, 0x6F, 0x63, 0x6B, 0x65, 0x72, 0xE9, 0x95, 0x9C, 0xE5, 0x83, 0x8F, 0xE5, 0x9C,
      0xA8, 0xE9, 0xBB, 0x91, 0xE5, 0x90, 0x8D, 0xE5, 0x8D, 0x95, 0xE5, 0x86, 0x85 :: nat]"

definition msg_invalid_github_format :: string where
  "msg_invalid_github_format = map char_of
     [0xE6, 0x97, 0xA0, 0xE6, 0x95, 0x88, 0xE7, 0x9A, 0x84, 0x47, 0x69, 0x74, 0x48, 0x75,
      0x62, 0xE4, 0xBB, 0x93, 0xE5, 0xBA, 0x93, 0xE6, 0xA0, 0xBC, 0xE5, 0xBC, 0x8F :: nat]"

definition msg_not_in_github_whitelist :: string where
  "msg_not_in_github_whitelist = map char_of
     [0xE4, 0xB8, 0x8D, 0xE5, 0x9C, 0xA8, 0x47, 0x69, 0x74, 0x48, 0x75, 0x62, 0xE4, 0xBB,
      0x93, 0xE5, 0xBA, 0x93, 0xE7, 0x99, 0xBD, 0xE5, 0x90, 0x8D, 0xE5, 0x8D, 0x95, 0xE5,
      0x86, 0x85 :: nat]"

definition msg_github_in_blacklist :: string where
  "msg_github_in_blacklist = map char_of
     [0x47, 0x69, 0x74, 0x48, 0x75, 0x62, 0xE4, 0xBB, 0x93, 0xE5, 0xBA, 0x93, 0xE5, 0x9C,
      0xA8, 0xE9, 0xBB, 0x91, 0xE5, 0x90, 0x8D, 0xE5, 0x8D, 0x95, 0xE5, 0x86, 0x85 :: nat]"

record DockerImageInfo =
  Namespace :: string
  Repository :: string
  Tag :: string
  FullName :: string

text \<open>
  \<^verbatim>\<open>ParseDockerImage\<close> in three steps, as the source has them: the tag is split off
  at the last colon when nothing after it is a slash; the rest is cut at the slashes; the
  full name is put together. \<open>split_tag\<close> gives the tag before its default (Go's zero
  value \<^verbatim>\<open>""\<close> when no tag was found) and the image without it.
\<close>

definition split_tag :: "string \<Rightarrow> string \<times> string" where
  "split_tag img =
     (case LastIndex img '':'' of
        None \<Rightarrow> ([], img)
      | Some idx \<Rightarrow>
          (let part = drop (idx + 1) img
           in if \<not> Contains part ''/'' then (part, take idx img) else ([], img)))"

definition split_name :: "string \<Rightarrow> string \<times> string" where
  "split_name img =
     (if Contains img ''/'' then
        (let parts = Split img CHR ''/'' in
         if length parts \<ge> 2 then
           (if Contains (parts ! 0) ''.'' then
              (if length parts \<ge> 3 then (parts ! 1, parts ! 2)
               else (''library'', parts ! 1))
            else (parts ! 0, parts ! 1))
         else ([], []))
      else (''library'', img))"

definition ParseDockerImage :: "string \<Rightarrow> DockerImageInfo" where
  "ParseDockerImage image0 =
     (let image1 = TrimPrefix image0 ''docker://'';
          (tag0, img) = split_tag image1;
          tag = (if tag0 = [] then ''latest'' else tag0);
          (namespace, repository) = split_name img
      in \<lparr>Namespace = namespace, Repository = repository, Tag = tag,
          FullName = namespace @ ''/'' @ repository\<rparr>)"

text \<open>
  The body of the loop of \<^verbatim>\<open>matchImageInList\<close> for one entry: \<open>True\<close> is
  \<^verbatim>\<open>return true\<close>, \<open>False\<close> is \<^verbatim>\<open>continue\<close> or falling off the end of
  the body. The entry is lower-cased and trimmed first. The repository is
  compared in lower case for the form \<^verbatim>\<open>*/repo\<close> and as it is for the form
  \<^verbatim>\<open>*/repo*\<close>, as in the source.
\<close>

definition image_item_matches :: "DockerImageInfo \<Rightarrow> string \<Rightarrow> bool" where
  "image_item_matches imageInfo item0 =
     (let fullName = ToLower (FullName imageInfo);
          namespace = ToLower (Namespace imageInfo);
          item = ToLower (TrimSpace item0)
      in if item = [] then False
         else if fullName = item then True
         else if item = namespace \<or> item = namespace @ ''/*'' then True
         else if HasSuffix item ''*'' \<and> HasPrefix fullName (TrimSuffix item ''*'') then True
         else if HasPrefix item ''*/'' \<and>
                 (let repoPattern = TrimPrefix item ''*/'' in
                  if HasSuffix repoPattern ''*''
                  then HasPrefix (Repository imageInfo) (TrimSuffix repoPattern ''*'')
                  else ToLower (Repository imageInfo) = repoPattern) then True
         else HasPrefix fullName (item @ ''/''))"

fun matchImageInList :: "DockerImageInfo \<Rightarrow> string list \<Rightarrow> bool" where
  "matchImageInList imageInfo [] = False"
| "matchImageInList imageInfo (item # list) =
     (if image_item_matches imageInfo item then True else matchImageInList imageInfo list)"

text \<open>
  \<^verbatim>\<open>checkList\<close>: the matcher for GitHub repositories. \<open>matches\<close> is what
  \<^verbatim>\<open>checkURL\<close> captured; its first two elements are the user and the repository.
\<close>

definition repo_item_matches :: "string \<Rightarrow> string \<Rightarrow> string \<Rightarrow> bool" where
  "repo_item_matches username fullRepo item0 =
     (let item = ToLower (TrimSpace item0)
      in if item = [] then False
         else if fullRepo = item then True
         else if item = username \<or> item = username @ ''/*'' then True
         else if HasSuffix item ''*'' \<and> HasPrefix fullRepo (TrimSuffix item ''*'') then True
         else HasPrefix fullRepo (item @ ''/''))"

fun checkList_loop :: "string \<Rightarrow> string \<Rightarrow> string list \<Rightarrow> bool" where
  "checkList_loop username fullRepo [] = False"
| "checkList_loop username fullRepo (item # list) =
     (if repo_item_matches username fullRepo item then True
      else checkList_loop username fullRepo list)"

definition checkList :: "string list \<Rightarrow> string list \<Rightarrow> bool" where
  "checkList matches list =
     (if length matches < 2 then False
      else
        (let username = ToLower (TrimSpace (matches ! 0));
             repoName = ToLower (TrimSpace (TrimSuffix (matches ! 1) ''.git''));
             fullRepo = username @ ''/'' @ repoName
         in checkList_loop username fullRepo list))"

text \<open>
  An allow-list and a deny-list, which is the shape of \<^verbatim>\<open>cfg.Proxy\<close> and of
  \<^verbatim>\<open>cfg.Security\<close>. The access controller is given \<^verbatim>\<open>cfg.Proxy\<close>, which the
  source reads from \<^verbatim>\<open>GetConfig()\<close>.
\<close>

record AccessLists =
  WhiteList :: "string list"
  BlackList :: "string list"

definition CheckDockerAccess :: "AccessLists \<Rightarrow> string \<Rightarrow> bool \<times> string" where
  "CheckDockerAccess cfg img =
     (let imageInfo = ParseDockerImage img
      in if length (WhiteList cfg) > 0 \<and> \<not> matchImageInList imageInfo (WhiteList cfg)
         then (False, msg_not_in_docker_whitelist)
         else if length (BlackList cfg) > 0 \<and> matchImageInList imageInfo (BlackList cfg)
         then (False, msg_docker_in_blacklist)
         else (True, []))"

definition CheckGitHubAccess :: "AccessLists \<Rightarrow> string list \<Rightarrow> bool \<times> string" where
  "CheckGitHubAccess cfg matches =
     (if length matches < 2 then (False, msg_invalid_github_format)
      else if length (WhiteList cfg) > 0 \<and> \<not> checkList matches (WhiteList cfg)
      then (False, msg_not_in_github_whitelist)
      else if length (BlackList cfg) > 0 \<and> checkList matches (BlackList cfg)
      then (False, msg_github_in_blacklist)
      else (True, []))"

section \<open>The configuration store\<close>

text \<open>
  \<^verbatim>\<open>AppConfig\<close>, one record for each struct nested in it. Go's \<^verbatim>\<open>int\<close> and
  \<^verbatim>\<open>int64\<close> fields are integers; the one \<^verbatim>\<open>float64\<close> field is the real number
  it denotes (nothing below computes with it). The map of registries is the list of its
  entries.
\<close>

record ServerConfig =
  Host :: string
  Port :: int
  FileSize :: int

record RateLimitConfig =
  RequestLimit :: int
  PeriodHours :: real

record DownloadConfig =
  MaxImages :: int

record RegistryMapping =
  Upstream :: string
  AuthHost :: string
  AuthType :: string
  Enabled :: bool

record TokenCacheConfig =
  TokenCacheEnabled :: bool
  DefaultTTL :: string

record AppConfig =
  Server :: ServerConfig
  RateLimit :: RateLimitConfig
  Security :: AccessLists
  Proxy :: AccessLists
  Download :: DownloadConfig
  Registries :: "(string \<times> RegistryMapping) list"
  TokenCache :: TokenCacheConfig

definition DefaultConfig :: AppConfig where
  "DefaultConfig =
     \<lparr>Server = \<lparr>Host = ''0.0.0.0'', Port = 5000, FileSize = 2 * 1024 * 1024 * 1024\<rparr>,
      RateLimit = \<lparr>RequestLimit = 20, PeriodHours = 1\<rparr>,
      Security = \<lparr>WhiteList = [], BlackList = []\<rparr>,
      Proxy = \<lparr>WhiteList = [], BlackList = []\<rparr>,
      Download = \<lparr>MaxImages = 10\<rparr>,
      Registries =
        [(''ghcr.io'', \<lparr>Upstream = ''ghcr.io'', AuthHost = ''ghcr.io/token'',
                        AuthType = ''github'', Enabled = True\<rparr>),
         (''gcr.io'', \<lparr>Upstream = ''gcr.io'', AuthHost = ''gcr.io/v2/token'',
                       AuthType = ''google'', Enabled = True\<rparr>),
         (''quay.io'', \<lparr>Upstream = ''quay.io'', AuthHost = ''quay.io/v2/auth'',
                        AuthType = ''quay'', Enabled = True\<rparr>),
         (''registry.k8s.io'', \<lparr>Upstream = ''registry.k8s.io'',
                                AuthHost = ''registry.k8s.io'',
                                AuthType = ''anonymous'', Enabled = True\<rparr>)],
      TokenCache = \<lparr>TokenCacheEnabled = True, DefaultTTL = ''20m''\<rparr>\<rparr>"

text \<open>
  The variables of the package: the published configuration, the cached copy that
  \<^verbatim>\<open>GetConfig\<close> hands out and the time it was made (\<open>None\<close> is \<^verbatim>\<open>nil\<close>). Time
  is a count of nanoseconds. The locks are left out: the operations below are the
  source's critical sections, run one after the other.
\<close>

record ConfigStore =
  appConfig :: "AppConfig option"
  cachedConfig :: "AppConfig option"
  configCacheTime :: int

definition configCacheTTL :: int where
  "configCacheTTL = 5 * 1000000000"

text \<open>
  \<^verbatim>\<open>GetConfig\<close> at the time \<open>now\<close>: the configuration returned and the variables
  afterwards. The copy the source makes field by field is the value itself. The source
  tests the cache a second time under the write lock; with nothing running in between
  the second test is the first.
\<close>

definition GetConfig :: "int \<Rightarrow> ConfigStore \<Rightarrow> AppConfig \<times> ConfigStore" where
  "GetConfig now st =
     (case (if now - configCacheTime st < configCacheTTL then cachedConfig st else None) of
        Some config \<Rightarrow> (config, st)
      | None \<Rightarrow>
          (case appConfig st of
             None \<Rightarrow>
               (DefaultConfig, st\<lparr>cachedConfig := Some DefaultConfig, configCacheTime := now\<rparr>)
           | Some configCopy \<Rightarrow>
               (configCopy, st\<lparr>cachedConfig := Some configCopy, configCacheTime := now\<rparr>)))"

definition setConfig :: "AppConfig \<Rightarrow> ConfigStore \<Rightarrow> ConfigStore" where
  "setConfig cfg st = st\<lparr>appConfig := Some cfg, cachedConfig := None\<rparr>"

text \<open>
  What the store is given from outside: the environment variables (\<^verbatim>\<open>""\<close> for one
  that is not set), \<^verbatim>\<open>strconv.ParseFloat\<close>, the file \<^verbatim>\<open>config.toml\<close> as
  \<^verbatim>\<open>os.ReadFile\<close> finds it (\<open>None\<close> for an error), and the two parsers, which fill a
  configuration from a text (TOML) or from the file Viper watches, or fail with a
  message.
\<close>

record sys =
  Getenv :: "string \<Rightarrow> string"
  ParseFloat :: "string \<Rightarrow> real option"
  ReadFile :: "string option"
  TomlUnmarshal :: "string \<Rightarrow> AppConfig \<Rightarrow> string + AppConfig"
  ViperUnmarshal :: "AppConfig \<Rightarrow> string + AppConfig"

definition positive_int :: "string \<Rightarrow> int option" where
  \<comment> \<open>the value of \<^verbatim>\<open>strconv.Atoi\<close> or \<^verbatim>\<open>ParseInt\<close> when there is no error and it is positive\<close>
  "positive_int val = (case ParseInt val of Some n \<Rightarrow> if n > 0 then Some n else None | None \<Rightarrow> None)"

definition overrideFromEnv :: "sys \<Rightarrow> AppConfig \<Rightarrow> AppConfig" where
  "overrideFromEnv s cfg0 =
     (let cfg1 = (let val = Getenv s ''SERVER_HOST'' in
                  if val \<noteq> [] then cfg0\<lparr>Server := (Server cfg0)\<lparr>Host := val\<rparr>\<rparr> else cfg0);
          cfg2 = (case positive_int (Getenv s ''SERVER_PORT'') of
                    Some port \<Rightarrow> cfg1\<lparr>Server := (Server cfg1)\<lparr>Port := port\<rparr>\<rparr>
                  | None \<Rightarrow> cfg1);
          cfg3 = (case positive_int (Getenv s ''MAX_FILE_SIZE'') of
                    Some sz \<Rightarrow> cfg2\<lparr>Server := (Server cfg2)\<lparr>FileSize := sz\<rparr>\<rparr>
                  | None \<Rightarrow> cfg2);
          cfg4 = (case positive_int (Getenv s ''RATE_LIMIT'') of
                    Some limit \<Rightarrow> cfg3\<lparr>RateLimit := (RateLimit cfg3)\<lparr>RequestLimit := limit\<rparr>\<rparr>
                  | None \<Rightarrow> cfg3);
          cfg5 = (let val = Getenv s ''RATE_PERIOD_HOURS'' in
                  if val \<noteq> [] then
                    (case ParseFloat s val of
                       Some period \<Rightarrow>
                         if period > 0
                         then cfg4\<lparr>RateLimit := (RateLimit cfg4)\<lparr>PeriodHours := period\<rparr>\<rparr>
                         else cfg4
                     | None \<Rightarrow> cfg4)
                  else cfg4);
          cfg6 = (let val = Getenv s ''IP_WHITELIST'' in
                  if val \<noteq> [] then
                    cfg5\<lparr>Security := (Security cfg5)
                      \<lparr>WhiteList := WhiteList (Security cfg5) @ Split val CHR '',''\<rparr>\<rparr>
                  else cfg5);
          cfg7 = (let val = Getenv s ''IP_BLACKLIST'' in
                  if val \<noteq> [] then
                    cfg6\<lparr>Security := (Security cfg6)
                      \<lparr>BlackList := BlackList (Security cfg6) @ Split val CHR '',''\<rparr>\<rparr>
                  else cfg6)
      in case positive_int (Getenv s ''MAX_IMAGES'') of
           Some maxImages \<Rightarrow> cfg7\<lparr>Download := (Download cfg7)\<lparr>MaxImages := maxImages\<rparr>\<rparr>
         | None \<Rightarrow> cfg7)"

text \<open>The text \<^verbatim>\<open>LoadConfig\<close> puts before the parser's error, in UTF-8.\<close>

definition msg_parse_config_failed :: string where
  "msg_parse_config_failed = map char_of
     [0xE8, 0xA7, 0xA3, 0xE6, 0x9E, 0x90, 0xE9, 0x85, 0x8D, 0xE7, 0xBD, 0xAE, 0xE6,
      0x96, 0x87, 0xE4, 0xBB, 0xB6, 0xE5, 0xA4, 0xB1, 0xE8, 0xB4, 0xA5, 0x3A, 0x20 :: nat]"

text \<open>
  \<^verbatim>\<open>LoadConfig\<close>: \<open>Inl\<close> is the error it returns. (It also starts the watcher of the
  file, which is what calls \<^verbatim>\<open>hotReloadWithViper\<close> later.)
\<close>

definition LoadConfig :: "sys \<Rightarrow> ConfigStore \<Rightarrow> string + ConfigStore" where
  "LoadConfig s st =
     (case (case ReadFile s of
              Some data \<Rightarrow> TomlUnmarshal s data DefaultConfig
            | None \<Rightarrow> Inr DefaultConfig) of
        Inl err \<Rightarrow> Inl (msg_parse_config_failed @ err)
      | Inr cfg \<Rightarrow> Inr (setConfig (overrideFromEnv s cfg) st))"

text \<open>
  \<^verbatim>\<open>hotReloadWithViper\<close>: the variables afterwards, and whether it went on to start
  \<^verbatim>\<open>updateAffectedComponents\<close>. When the parser fails it prints the error and
  returns.
\<close>

definition hotReloadWithViper :: "sys \<Rightarrow> ConfigStore \<Rightarrow> ConfigStore \<times> bool" where
  "hotReloadWithViper s st =
     (case ViperUnmarshal s DefaultConfig of
        Inl err \<Rightarrow> (st, False)
      | Inr cfg \<Rightarrow> (setConfig (overrideFromEnv s cfg) st, True))"

subsection \<open>Notions used to state the properties of the store\<close>

text \<open>
  The published snapshot: the configuration last given to \<^verbatim>\<open>setConfig\<close>, the default
  one before any. A cache is consistent when it holds nothing or the published snapshot,
  which is how \<^verbatim>\<open>setConfig\<close> and \<^verbatim>\<open>GetConfig\<close> leave it.
\<close>

definition published :: "ConfigStore \<Rightarrow> AppConfig" where
  "published st = (case appConfig st of None \<Rightarrow> DefaultConfig | Some cfg \<Rightarrow> cfg)"

definition cache_consistent :: "ConfigStore \<Rightarrow> bool" where
  "cache_consistent st =
     (case cachedConfig st of None \<Rightarrow> True | Some cfg \<Rightarrow> cfg = published st)"

text \<open>The configurations a run of calls of \<^verbatim>\<open>GetConfig\<close> returns, one for each time.\<close>

fun GetConfig_calls :: "int list \<Rightarrow> ConfigStore \<Rightarrow> AppConfig list" where
  "GetConfig_calls [] st = []"
| "GetConfig_calls (now # nows) st =
     (case GetConfig now st of (cfg, st') \<Rightarrow> cfg # GetConfig_calls nows st')"

definition initial_store :: ConfigStore where
  "initial_store = \<lparr>appConfig = None, cachedConfig = None, configCacheTime = 0\<rparr>"

text \<open>A file that does not parse, and an environment with no variable set.\<close>

definition broken_file_sys :: sys where
  "broken_file_sys =
     \<lparr>Getenv = (\<lambda>name. []), ParseFloat = (\<lambda>val. None), ReadFile = Some ''server = ['',
      TomlUnmarshal = (\<lambda>data cfg. Inl ''toml: incomplete array''),
      ViperUnmarshal = (\<lambda>cfg. Inl ''While parsing config: toml: incomplete array'')\<rparr>"

subsection \<open>Notions used to state the properties of the access controller\<close>

text \<open>
  The segments of an image name put back together with slashes: the inverse of
  \<^const>\<open>Split\<close> at \<^verbatim>\<open>"/"\<close> on segments that hold no slash.
\<close>

fun join_slash :: "string list \<Rightarrow> string" where
  "join_slash [] = []"
| "join_slash [p] = p"
| "join_slash (p # q # ps) = p @ CHR ''/'' # join_slash (q # ps)"

text \<open>
  The rule of the specification for the namespace and the repository, on the segments of
  the name: no slash gives the namespace \<^verbatim>\<open>library\<close>; a first segment with a dot
  is the upstream host and is left out; segments after the ones used are ignored.
\<close>

definition name_of_segments :: "string list \<Rightarrow> string \<times> string" where
  "name_of_segments segs =
     (case segs of
        [] \<Rightarrow> ([], [])
      | [p0] \<Rightarrow> (''library'', p0)
      | [p0, p1] \<Rightarrow> if CHR ''.'' \<in> set p0 then (''library'', p1) else (p0, p1)
      | p0 # p1 # p2 # rest \<Rightarrow> if CHR ''.'' \<in> set p0 then (p1, p2) else (p0, p1))"

text \<open>
  The user and the \<^verbatim>\<open>user/repo\<close> name that \<^verbatim>\<open>checkList\<close> compares the entries
  with: lower case, trimmed, a trailing \<^verbatim>\<open>.git\<close> removed from the repository.
\<close>

definition github_user :: "string list \<Rightarrow> string" where
  "github_user matches = ToLower (TrimSpace (matches ! 0))"

definition github_full_repo :: "string list \<Rightarrow> string" where
  "github_full_repo matches =
     github_user matches @ ''/'' @ ToLower (TrimSpace (TrimSuffix (matches ! 1) ''.git''))"

section \<open>The URL patterns\<close>

text \<open>
  The ten patterns of \<^verbatim>\<open>exps\<close> are values of a datatype of the regular expressions
  they are written in, and Go's \<^verbatim>\<open>regexp\<close> is the backtracking matcher below: it
  lists the ways an expression matches at a position in the order a backtracking search
  tries them, and the first one is the match Go reports (leftmost-first). Repetition in
  the patterns is always of one character class, which is what \<open>Rep\<close> is: \<open>.\<close> is any
  character but a newline, \<^verbatim>\<open>[^/]\<close> is any character but a slash. Matching is on
  bytes; the two classes and the slash delimit the same pieces on bytes as on UTF-8
  characters.
\<close>

datatype cclass = AnyChar | NotSlash

fun in_class :: "cclass \<Rightarrow> char \<Rightarrow> bool" where
  "in_class AnyChar c = (c \<noteq> CHR 0x0A)"
| "in_class NotSlash c = (c \<noteq> CHR ''/'')"

datatype regex =
    Bol                       \<comment> \<open>\<^verbatim>\<open>^\<close>: the beginning of the text\<close>
  | Eol                       \<comment> \<open>\<^verbatim>\<open>$\<close>: the end of the text\<close>
  | Lit string                \<comment> \<open>literal text\<close>
  | Rep cclass nat bool       \<comment> \<open>at least \<open>n\<close> characters of a class; greedy or lazy\<close>
  | Cat regex regex           \<comment> \<open>one expression after the other\<close>
  | Alt regex regex           \<comment> \<open>\<^verbatim>\<open>a|b\<close>, the left one first\<close>
  | Opt regex                 \<comment> \<open>\<^verbatim>\<open>a?\<close>, with \<open>a\<close> first\<close>
  | Cap nat regex             \<comment> \<open>the capturing group of that number\<close>

text \<open>
  A state of the matcher: the offset in the text, the text from there on, and the groups
  captured so far (the latest first).
\<close>

type_synonym mstate = "nat \<times> string \<times> (nat \<times> string) list"

fun rmatch :: "regex \<Rightarrow> mstate \<Rightarrow> mstate list" where
  "rmatch Bol (pos, s, caps) = (if pos = 0 then [(pos, s, caps)] else [])"
| "rmatch Eol (pos, s, caps) = (if s = [] then [(pos, s, caps)] else [])"
| "rmatch (Lit l) (pos, s, caps) =
     (if HasPrefix s l then [(pos + length l, drop (length l) s, caps)] else [])"
| "rmatch (Rep cc n greedy) (pos, s, caps) =
     (let m = length (takeWhile (in_class cc) s);
          ks = [n ..< Suc m]
      in map (\<lambda>k. (pos + k, drop k s, caps)) (if greedy then rev ks else ks))"
| "rmatch (Cat a b) st = concat (map (rmatch b) (rmatch a st))"
| "rmatch (Alt a b) st = rmatch a st @ rmatch b st"
| "rmatch (Opt a) st = rmatch a st @ [st]"
| "rmatch (Cap i a) (pos, s, caps) =
     map (\<lambda>(pos', s', caps'). (pos', s', (i, take (pos' - pos) s) # caps'))
       (rmatch a (pos, s, caps))"

fun NumSubexp :: "regex \<Rightarrow> nat" where
  "NumSubexp (Cat a b) = NumSubexp a + NumSubexp b"
| "NumSubexp (Alt a b) = NumSubexp a + NumSubexp b"
| "NumSubexp (Opt a) = NumSubexp a"
| "NumSubexp (Cap i a) = Suc (NumSubexp a)"
| "NumSubexp r = 0"

text \<open>
  The leftmost match: the first way to match at the first offset where there is one. The
  result is the offset where the match begins and the state where it ends.
\<close>

fun find_from :: "regex \<Rightarrow> nat \<Rightarrow> string \<Rightarrow> (nat \<times> mstate) option" where
  "find_from r pos [] =
     (case rmatch r (pos, [], []) of st # _ \<Rightarrow> Some (pos, st) | [] \<Rightarrow> None)"
| "find_from r pos (c # cs) =
     (case rmatch r (pos, c # cs, []) of
        st # _ \<Rightarrow> Some (pos, st)
      | [] \<Rightarrow> find_from r (Suc pos) cs)"

text \<open>
  \<^verbatim>\<open>FindStringSubmatch\<close>: \<open>None\<close> is Go's \<^verbatim>\<open>nil\<close>; otherwise the text of the
  match followed by the text of every group of the expression, empty for a group that
  took no part in the match.
\<close>

definition FindStringSubmatch :: "regex \<Rightarrow> string \<Rightarrow> string list option" where
  "FindStringSubmatch r s =
     (case find_from r 0 s of
        None \<Rightarrow> None
      | Some (start, (end, rest, caps)) \<Rightarrow>
          Some (take (end - start) (drop start s) #
                map (\<lambda>i. case map_of caps i of None \<Rightarrow> [] | Some t \<Rightarrow> t)
                  [1 ..< Suc (NumSubexp r)]))"

definition MatchString :: "regex \<Rightarrow> string \<Rightarrow> bool" where
  "MatchString r s = (find_from r 0 s \<noteq> None)"

text \<open>Pieces shared by the patterns.\<close>

definition cat :: "regex list \<Rightarrow> regex" where
  "cat rs = foldr Cat rs (Lit [])"

definition scheme :: regex where
  \<comment> \<open>\<^verbatim>\<open>(?:https?://)?\<close>\<close>
  "scheme = Opt (cat [Lit ''http'', Opt (Lit ''s''), Lit ''://''])"

definition seg :: "nat \<Rightarrow> regex" where
  \<comment> \<open>\<^verbatim>\<open>([^/]+)\<close> as the group of that number\<close>
  "seg i = Cap i (Rep NotSlash 1 True)"

definition usercontent :: regex where
  \<comment> \<open>\<^verbatim>\<open>(?:usercontent|)\<close>\<close>
  "usercontent = Alt (Lit ''usercontent'') (Lit [])"

definition spaces :: regex where
  \<comment> \<open>\<^verbatim>\<open>(?:/spaces)?\<close>\<close>
  "spaces = Opt (Lit ''/spaces'')"

text \<open>The table \<^verbatim>\<open>exps\<close>, each pattern under the source's text of it.\<close>

definition exps :: "regex list" where
  \<open>exps =
   [ \<comment> \<open>\<^verbatim>\<open>^(?:https?://)?github\.com/([^/]+)/([^/]+)/(?:releases|archive)/.*$\<close>\<close>
     cat [Bol, scheme, Lit ''github.com/'', seg 1, Lit ''/'', seg 2, Lit ''/'',
          Alt (Lit ''releases'') (Lit ''archive''), Lit ''/'', Rep AnyChar 0 True, Eol],
     \<comment> \<open>\<^verbatim>\<open>^(?:https?://)?github\.com/([^/]+)/([^/]+)/(?:blob|raw)/.*$\<close>\<close>
     cat [Bol, scheme, Lit ''github.com/'', seg 1, Lit ''/'', seg 2, Lit ''/'',
          Alt (Lit ''blob'') (Lit ''raw''), Lit ''/'', Rep AnyChar 0 True, Eol],
     \<comment> \<open>\<^verbatim>\<open>^(?:https?://)?github\.com/([^/]+)/([^/]+)/(?:info|git-).*$\<close>\<close>
     cat [Bol, scheme, Lit ''github.com/'', seg 1, Lit ''/'', seg 2, Lit ''/'',
          Alt (Lit ''info'') (Lit ''git-''), Rep AnyChar 0 True, Eol],
     \<comment> \<open>\<^verbatim>\<open>^(?:https?://)?raw\.github(?:usercontent|)\.com/([^/]+)/([^/]+)/.+?/.+$\<close>\<close>
     cat [Bol, scheme, Lit ''raw.github'', usercontent, Lit ''.com/'', seg 1, Lit ''/'',
          seg 2, Lit ''/'', Rep AnyChar 1 False, Lit ''/'', Rep AnyChar 1 True, Eol],
     \<comment> \<open>\<^verbatim>\<open>^(?:https?://)?gist\.github(?:usercontent|)\.com/([^/]+)/.+?/.+\<close>\<close>
     cat [Bol, scheme, Lit ''gist.github'', usercontent, Lit ''.com/'', seg 1, Lit ''/'',
          Rep AnyChar 1 False, Lit ''/'', Rep AnyChar 1 True],
     \<comment> \<open>\<^verbatim>\<open>^(?:https?://)?api\.github\.com/repos/([^/]+)/([^/]+)/.*\<close>\<close>
     cat [Bol, scheme, Lit ''api.github.com/repos/'', seg 1, Lit ''/'', seg 2, Lit ''/'',
          Rep AnyChar 0 True],
     \<comment> \<open>\<^verbatim>\<open>^(?:https?://)?huggingface\.co(?:/spaces)?/([^/]+)/(.+)$\<close>\<close>
     cat [Bol, scheme, Lit ''huggingface.co'', spaces, Lit ''/'', seg 1, Lit ''/'',
          Cap 2 (Rep AnyChar 1 True), Eol],
     \<comment> \<open>\<^verbatim>\<open>^(?:https?://)?cdn-lfs\.hf\.co(?:/spaces)?/([^/]+)/([^/]+)(?:/(.*))?$\<close>\<close>
     cat [Bol, scheme, Lit ''cdn-lfs.hf.co'', spaces, Lit ''/'', seg 1, Lit ''/'', seg 2,
          Opt (cat [Lit ''/'', Cap 3 (Rep AnyChar 0 True)]), Eol],
     \<comment> \<open>\<^verbatim>\<open>^(?:https?://)?download\.docker\.com/([^/]+)/.*\.(tgz|zip)$\<close>\<close>
     cat [Bol, scheme, Lit ''download.docker.com/'', seg 1, Lit ''/'', Rep AnyChar 0 True,
          Lit ''.'', Cap 2 (Alt (Lit ''tgz'') (Lit ''zip'')), Eol],
     \<comment> \<open>\<^verbatim>\<open>^(?:https?://)?(github|opengraph)\.githubassets\.com/([^/]+)/.+?$\<close>\<close>
     cat [Bol, scheme, Cap 1 (Alt (Lit ''github'') (Lit ''opengraph'')),
          Lit ''.githubassets.com/'', seg 2, Lit ''/'', Rep AnyChar 1 False, Eol] ]\<close>

text \<open>
  \<^verbatim>\<open>checkURL\<close>: the groups of the first pattern that matches, \<open>None\<close> (Go's
  \<^verbatim>\<open>nil\<close>) when none does.
\<close>

fun checkURL_loop :: "regex list \<Rightarrow> string \<Rightarrow> string list option" where
  "checkURL_loop [] u = None"
| "checkURL_loop (e # rest) u =
     (case FindStringSubmatch e u of
        Some matches \<Rightarrow> Some (tl matches)
      | None \<Rightarrow> checkURL_loop rest u)"

definition checkURL :: "string \<Rightarrow> string list option" where
  "checkURL u = checkURL_loop exps u"

section \<open>The generic URL proxy\<close>

text \<open>The messages of the proxy, as the UTF-8 bytes of the source's literals.\<close>

definition msg_invalid_input :: string where
  "msg_invalid_input = map char_of
     [0xE6, 0x97, 0xA0, 0xE6, 0x95, 0x88, 0xE8, 0xBE, 0x93, 0xE5, 0x85, 0xA5 :: nat]"

definition msg_too_many_redirects :: string where
  "msg_too_many_redirects = map char_of
     [0xE9, 0x87, 0x8D, 0xE5, 0xAE, 0x9A, 0xE5, 0x90, 0x91, 0xE6, 0xAC, 0xA1, 0xE6,
      0x95, 0xB0, 0xE8, 0xBF, 0x87, 0xE5, 0xA4, 0x9A, 0xEF, 0xBC, 0x8C, 0xE5, 0x8F,
      0xAF, 0xE8, 0x83, 0xBD, 0xE5, 0xAD, 0x98, 0xE5, 0x9C, 0xA8, 0xE5, 0xBE, 0xAA,
      0xE7, 0x8E, 0xAF, 0xE9, 0x87, 0x8D, 0xE5, 0xAE, 0x9A, 0xE5, 0x90, 0x91 :: nat]"

definition msg_file_too_large :: string where
  "msg_file_too_large = map char_of
     [0xE6, 0x96, 0x87, 0xE4, 0xBB, 0xB6, 0xE8, 0xBF, 0x87, 0xE5, 0xA4, 0xA7, 0xEF,
      0xBC, 0x8C, 0xE9, 0x99, 0x90, 0xE5, 0x88, 0xB6, 0xE5, 0xA4, 0xA7, 0xE5, 0xB0,
      0x8F, 0x3A, 0x20 :: nat]"

subsection \<open>Headers, the upstream response and the response to the client\<close>

text \<open>
  A header is the list of its fields, in canonical spelling; \<^verbatim>\<open>Get\<close> reads the first
  value of a field (\<^verbatim>\<open>""\<close> when there is none), \<^verbatim>\<open>Del\<close> removes a field and
  \<^verbatim>\<open>Set\<close> replaces it.
\<close>

type_synonym header = "(string \<times> string) list"

definition header_Get :: "header \<Rightarrow> string \<Rightarrow> string" where
  "header_Get h k = (case map_of h k of None \<Rightarrow> [] | Some v \<Rightarrow> v)"

definition header_Del :: "header \<Rightarrow> string \<Rightarrow> header" where
  "header_Del h k = filter (\<lambda>kv. fst kv \<noteq> k) h"

definition header_Set :: "header \<Rightarrow> string \<Rightarrow> string \<Rightarrow> header" where
  "header_Set h k v = header_Del h k @ [(k, v)]"

text \<open>\<^verbatim>\<open>http.Response\<close>, what the upstream answered.\<close>

record Response =
  StatusCode :: nat
  RespHeader :: header
  RespBody :: string

text \<open>
  What \<^verbatim>\<open>gin.Context\<close> holds of the response to the client: the status, the header
  and the bytes written. \<^verbatim>\<open>c.Header\<close> with an empty value removes the field;
  \<^verbatim>\<open>c.String\<close> sets the status, gives the content type when there is none yet and
  writes the text.
\<close>

record Context =
  Status :: nat
  OutHeader :: header
  Written :: string

definition c_Header :: "string \<Rightarrow> string \<Rightarrow> Context \<Rightarrow> Context" where
  "c_Header k v c =
     c\<lparr>OutHeader := (if v = [] then header_Del (OutHeader c) k
                      else header_Set (OutHeader c) k v)\<rparr>"

definition c_Status :: "nat \<Rightarrow> Context \<Rightarrow> Context" where
  "c_Status code c = c\<lparr>Status := code\<rparr>"

definition c_Write :: "string \<Rightarrow> Context \<Rightarrow> Context" where
  "c_Write bytes c = c\<lparr>Written := Written c @ bytes\<rparr>"

definition c_String :: "nat \<Rightarrow> string \<Rightarrow> Context \<Rightarrow> Context" where
  "c_String code msg c =
     (let c1 = c_Status code c;
          c2 = (if header_Get (OutHeader c1) ''Content-Type'' = []
                then c_Header ''Content-Type'' ''text/plain; charset=utf-8'' c1 else c1)
      in c_Write msg c2)"

definition copy_headers :: "header \<Rightarrow> Context \<Rightarrow> Context" where
  "copy_headers h c = foldl (\<lambda>c' kv. c_Header (fst kv) (snd kv) c') c h"

text \<open>
  What the proxy is given from outside: the configuration \<^verbatim>\<open>GetConfig()\<close> returns
  while the request is handled, the two fields of
  the request that name the proxy's own host, and the collaborators. \<open>NewRequest\<close> is the
  error of \<^verbatim>\<open>http.NewRequest\<close> for a URL (\<open>None\<close> when it builds the request);
  \<open>Do\<close> is the shared HTTP client, which does not follow redirects: from a state \<open>'w\<close>
  of the world outside it answers a request to a URL with an error or a response and
  leaves the world in a new state; \<open>ProcessSmart\<close> is the script rewriter (\<open>None\<close> is its
  error).
\<close>

record 'w env =
  Config :: AppConfig
  XForwardedHost :: string
  RequestHost :: string
  NewRequest :: "string \<Rightarrow> string option"
  Do :: "'w \<Rightarrow> string \<Rightarrow> (string + Response) \<times> 'w"
  ProcessSmart :: "string \<Rightarrow> bool \<Rightarrow> string \<Rightarrow> (string \<times> int) option"

subsection \<open>\<^verbatim>\<open>proxyWithRedirect\<close>\<close>

definition maxRedirects :: nat where
  "maxRedirects = 20"

definition too_large :: "'w env \<Rightarrow> Response \<Rightarrow> bool" where
  "too_large env resp =
     (let contentLength = header_Get (RespHeader resp) ''Content-Length''
      in contentLength \<noteq> [] \<and>
         (case ParseInt contentLength of None \<Rightarrow> False | Some sz \<Rightarrow> sz > FileSize (Server (Config env))))"

definition strip_security :: "header \<Rightarrow> header" where
  "strip_security h =
     header_Del (header_Del (header_Del h ''Content-Security-Policy'') ''Referrer-Policy'')
       ''Strict-Transport-Security''"

definition realHost :: "'w env \<Rightarrow> string" where
  "realHost env =
     (let h = (if XForwardedHost env = [] then RequestHost env else XForwardedHost env)
      in if \<not> HasPrefix h ''http://'' \<and> \<not> HasPrefix h ''https://'' then ''https://'' @ h
         else h)"

text \<open>
  The body and the header for a target that ends in \<^verbatim>\<open>.sh\<close>: the rewritten body
  (the body as it came when the rewriter fails) and, when the rewriter reports a size,
  the header without length and encoding and with chunked transfer.
\<close>

definition shell_body :: "'w env \<Rightarrow> Response \<Rightarrow> header \<Rightarrow> string \<times> header" where
  "shell_body env resp hdr =
     (let isGzipCompressed = (header_Get hdr ''Content-Encoding'' = ''gzip'');
          (processedBody, processedSize) =
            (case ProcessSmart env (RespBody resp) isGzipCompressed (realHost env) of
               None \<Rightarrow> (RespBody resp, 0)
             | Some r \<Rightarrow> r)
      in (processedBody,
          if processedSize > 0
          then header_Set (header_Del (header_Del hdr ''Content-Length'') ''Content-Encoding'')
                 ''Transfer-Encoding'' ''chunked''
          else hdr))"

text \<open>
  \<^verbatim>\<open>proxyWithRedirect\<close> returns the response to the client, the URLs of the requests
  it sent upstream, in order, and the state the world is left in. Both branches of the
  source (a shell script or not) copy the header, look at \<^verbatim>\<open>Location\<close>, set the
  status and write the body in the same way; they differ in the body and the header,
  which is \<open>shell_body\<close>.
\<close>

function proxyWithRedirect ::
  "'w env \<Rightarrow> 'w \<Rightarrow> Context \<Rightarrow> string \<Rightarrow> nat \<Rightarrow> Context \<times> string list \<times> 'w" where
  "proxyWithRedirect env w c u redirectCount =
     (if redirectCount > maxRedirects then (c_String 508 msg_too_many_redirects c, [], w)
      else
        (case NewRequest env u of
           Some err \<Rightarrow> (c_String 500 (''server error '' @ err) c, [], w)
         | None \<Rightarrow>
             (case Do env w u of
                (Inl err, w1) \<Rightarrow> (c_String 500 (''server error '' @ err) c, [u], w1)
              | (Inr resp, w1) \<Rightarrow>
                  if too_large env resp
                  then (c_String 413
                          (msg_file_too_large @
                           show_int (FileSize (Server (Config env)) sdiv (1024 * 1024)) @ '' MB'') c,
                        [u], w1)
                  else
                    (let hdr0 = strip_security (RespHeader resp);
                         (body, hdr) =
                           (if HasSuffix (ToLower u) ''.sh'' then shell_body env resp hdr0
                            else (RespBody resp, hdr0));
                         c1 = copy_headers hdr c;
                         location = header_Get hdr ''Location''
                     in if location \<noteq> [] \<and> checkURL location = None
                        then
                          (case proxyWithRedirect env w1 c1 location (redirectCount + 1) of
                             (c2, reqs, w2) \<Rightarrow> (c2, u # reqs, w2))
                        else
                          (let c2 = (if location \<noteq> []
                                     then c_Header ''Location'' (''/'' @ location) c1
                                     else c1)
                           in (c_Write body (c_Status (StatusCode resp) c2), [u], w1))))))"
  by pat_completeness auto
termination
  by (relation "measure (\<lambda>(env, w, c, u, redirectCount). 21 - redirectCount)")
     (auto simp: maxRedirects_def)

declare proxyWithRedirect.simps [simp del]

definition proxyRequest ::
  "'w env \<Rightarrow> 'w \<Rightarrow> Context \<Rightarrow> string \<Rightarrow> Context \<times> string list \<times> 'w" where
  "proxyRequest env w c u = proxyWithRedirect env w c u 0"

subsection \<open>\<^verbatim>\<open>handler\<close>\<close>

fun strip_slashes :: "string \<Rightarrow> string" where
  "strip_slashes [] = []"
| "strip_slashes (c # cs) = (if c = CHR ''/'' then strip_slashes cs else c # cs)"

definition complete_scheme :: "string \<Rightarrow> string" where
  "complete_scheme rawPath =
     (if \<not> HasPrefix rawPath ''https://'' then
        ''https://'' @
        (if HasPrefix rawPath ''http:/'' \<or> HasPrefix rawPath ''https:/''
         then Replace1 (Replace1 rawPath ''http:/'' []) ''https:/'' []
         else if HasPrefix rawPath ''http://'' then TrimPrefix rawPath ''http://''
         else rawPath)
      else rawPath)"

text \<open>
  \<open>requestURI\<close> is \<^verbatim>\<open>c.Request.URL.RequestURI()\<close>; \<open>c\<close> is the response as the
  handler finds it.
\<close>

definition handler ::
  "'w env \<Rightarrow> 'w \<Rightarrow> Context \<Rightarrow> string \<Rightarrow> Context \<times> string list \<times> 'w" where
  "handler env w c requestURI =
     (let rawPath = complete_scheme (strip_slashes (TrimPrefix requestURI ''/''))
      in case checkURL rawPath of
           None \<Rightarrow> (c_String 403 msg_invalid_input c, [], w)
         | Some matches \<Rightarrow>
             (case CheckGitHubAccess (Proxy (Config env)) matches of
                (allowed, reason) \<Rightarrow>
                  if \<not> allowed then (c_String 403 reason c, [], w)
                  else
                    proxyRequest env w c
                      (if MatchString (exps ! 1) rawPath
                       then Replace1 rawPath ''/blob/'' ''/raw/'' else rawPath)))"

subsection \<open>Values used to state and to run the properties of the proxy\<close>

text \<open>
  An upstream that answers every request with a redirect to a URL that is none of the
  proxy's patterns, the state of the world counting the requests it received.
\<close>

definition redirecting_env :: "nat env" where
  "redirecting_env =
     \<lparr>Config = DefaultConfig,
      XForwardedHost = [], RequestHost = ''proxy.example.com'',
      NewRequest = (\<lambda>u. None),
      Do = (\<lambda>w u. (Inr \<lparr>StatusCode = 302,
                          RespHeader = [(''Location'', ''https://example.com/next'')],
                          RespBody = []\<rparr>, Suc w)),
      ProcessSmart = (\<lambda>body gz host. Some (body, 0))\<rparr>"

text \<open>The response as a handler finds it: status 200, nothing set, nothing written.\<close>

definition fresh_context :: Context where
  "fresh_context = \<lparr>Status = 200, OutHeader = [], Written = []\<rparr>"

text \<open>The message of the specification's table for a redirect loop, in UTF-8.\<close>

definition spec_msg_redirects :: string where
  "spec_msg_redirects = map char_of
     [0xE9, 0x87, 0x8D, 0xE5, 0xAE, 0x9A, 0xE5, 0x90, 0x91, 0xE6, 0xAC, 0xA1, 0xE6,
      0x95, 0xB0, 0xE8, 0xBF, 0x87, 0xE5, 0xA4, 0x9A :: nat]"

section \<open>The rate limiter\<close>

text \<open>The messages of the middleware, as the UTF-8 bytes of the source's literals.\<close>

definition msg_ip_denied :: string where
  "msg_ip_denied = map char_of
     [0xE6, 0x82, 0xA8, 0xE5, 0xB7, 0xB2, 0xE8, 0xA2, 0xAB, 0xE9, 0x99, 0x90, 0xE5,
      0x88, 0xB6, 0xE8, 0xAE, 0xBF, 0xE9, 0x97, 0xAE :: nat]"

definition msg_rate_limited :: string where
  "msg_rate_limited = map char_of
     [0xE8, 0xAF, 0xB7, 0xE6, 0xB1, 0x82, 0xE9, 0xA2, 0x91, 0xE7, 0x8E, 0x87, 0xE8,
      0xBF, 0x87, 0xE5, 0xBF, 0xAB, 0xEF, 0xBC, 0x8C, 0xE6, 0x9A, 0x82, 0xE6, 0x97,
      0xB6, 0xE9, 0x99, 0x90, 0xE5, 0x88, 0xB6, 0xE8, 0xAE, 0xBF, 0xE9, 0x97,
      0xAE :: nat]"

subsection \<open>Addresses and networks\<close>

text \<open>
  A parsed address is Go's \<^verbatim>\<open>net.IP\<close> in its 16-byte form, a word of 128 bits with
  the first byte on top; an IPv4 address is there in its IPv4-mapped form. \<^verbatim>\<open>To4\<close>
  gives the four bytes of an address whose first ten bytes are zero and whose next two
  are \<^verbatim>\<open>0xff\<close>, and \<open>None\<close> (Go's \<^verbatim>\<open>nil\<close>) for any other.
\<close>

type_synonym IP = "128 word"

definition To4 :: "IP \<Rightarrow> 32 word option" where
  "To4 ip = (if drop_bit 32 ip = 0xFFFF then Some (ucast ip) else None)"

text \<open>
  \<^verbatim>\<open>net.IPNet\<close>, as \<^verbatim>\<open>ParseCIDR\<close> gives it: the network number and the mask, of
  an IPv4 or of an IPv6 network. \<^verbatim>\<open>Contains\<close> takes an IPv4 address only in an IPv4
  network and any other address only in an IPv6 network, and compares under the mask.
\<close>

datatype IPNet = Net4 "32 word" "32 word" | Net6 "128 word" "128 word"

fun IPNet_Contains :: "IPNet \<Rightarrow> IP \<Rightarrow> bool" where
  "IPNet_Contains (Net4 nn m) ip =
     (case To4 ip of None \<Rightarrow> False | Some x \<Rightarrow> and nn m = and x m)"
| "IPNet_Contains (Net6 nn m) ip =
     (case To4 ip of None \<Rightarrow> and nn m = and ip m | Some x \<Rightarrow> False)"

text \<open>
  \<^verbatim>\<open>IP.String()\<close>. An IPv4 address is four decimal numbers with dots. Any other
  address is its eight groups of 16 bits in hexadecimal without leading zeros, with the
  longest run of two or more zero groups (the first of the longest) replaced by
  \<^verbatim>\<open>::\<close>.
\<close>

definition hex_digit :: "nat \<Rightarrow> char" where
  "hex_digit d = ''0123456789abcdef'' ! d"

function hex_nat :: "nat \<Rightarrow> string" where
  "hex_nat n =
     (if n < 16 then [hex_digit n] else hex_nat (n div 16) @ [hex_digit (n mod 16)])"
  by pat_completeness auto
termination
  by (relation "measure id") auto

declare hex_nat.simps [simp del]

definition ip_groups :: "IP \<Rightarrow> nat list" where
  "ip_groups ip = map (\<lambda>i. unat (take_bit 16 (drop_bit (16 * (7 - i)) ip))) [0 ..< 8]"

text \<open>
  The run of zero groups to abbreviate, as the offsets where it begins and ends: the
  scan of the source, which keeps a run only when it is longer than the one it has.
\<close>

definition zero_run_step :: "nat list \<Rightarrow> (nat \<times> nat) option \<Rightarrow> nat \<Rightarrow> (nat \<times> nat) option" where
  "zero_run_step gs best i =
     (let l = length (takeWhile (\<lambda>g. g = 0) (drop i gs));
          have = (case best of None \<Rightarrow> 0 | Some (zs, ze) \<Rightarrow> ze - zs)
      in if l \<ge> 2 \<and> l > have then Some (i, i + l) else best)"

definition zero_run :: "nat list \<Rightarrow> (nat \<times> nat) option" where
  "zero_run gs = foldl (zero_run_step gs) None [0 ..< length gs]"

fun join_colon :: "string list \<Rightarrow> string" where
  "join_colon [] = []"
| "join_colon [x] = x"
| "join_colon (x # y # xs) = x @ CHR '':'' # join_colon (y # xs)"

definition ip6_string :: "nat list \<Rightarrow> string" where
  "ip6_string gs =
     (case zero_run gs of
        None \<Rightarrow> join_colon (map hex_nat gs)
      | Some (zs, ze) \<Rightarrow>
          join_colon (map hex_nat (take zs gs)) @ ''::'' @ join_colon (map hex_nat (drop ze gs)))"

definition ip4_string :: "32 word \<Rightarrow> string" where
  "ip4_string x =
     show_nat (unat (drop_bit 24 x)) @ ''.'' @ show_nat (unat (take_bit 8 (drop_bit 16 x))) @
     ''.'' @ show_nat (unat (take_bit 8 (drop_bit 8 x))) @ ''.'' @ show_nat (unat (take_bit 8 x))"

definition IP_String :: "IP \<Rightarrow> string" where
  "IP_String ip = (case To4 ip of Some x \<Rightarrow> ip4_string x | None \<Rightarrow> ip6_string (ip_groups ip))"

subsection \<open>The limiter\<close>

text \<open>
  What the limiter is given from outside: of Go's package \<^verbatim>\<open>net\<close>,
  \<^verbatim>\<open>ParseIP\<close>, \<^verbatim>\<open>SplitHostPort\<close> and \<^verbatim>\<open>ParseCIDR\<close> (the network it returns),
  each \<open>None\<close> where Go reports \<^verbatim>\<open>nil\<close> or an error; of the package \<^verbatim>\<open>rate\<close>,
  \<^verbatim>\<open>NewLimiter\<close> and \<^verbatim>\<open>Allow\<close> on the state \<open>'l\<close> of a token bucket: at a time,
  whether a token was there, and the bucket afterwards.
\<close>

datatype Limit = RateInf | PerPeriod int real
  \<comment> \<open>\<^verbatim>\<open>rate.Inf\<close>, or the limit \<^verbatim>\<open>float64(n) / (h * 3600)\<close> for \<open>PerPeriod n h\<close>\<close>

record 'l lib =
  ParseIP :: "string \<Rightarrow> IP option"
  SplitHostPort :: "string \<Rightarrow> (string \<times> string) option"
  ParseCIDR :: "string \<Rightarrow> IPNet option"
  NewLimiter :: "Limit \<Rightarrow> int \<Rightarrow> 'l"
  Allow :: "'l \<Rightarrow> int \<Rightarrow> bool \<times> 'l"

record 'l rateLimiterEntry =
  limiter :: 'l
  lastAccess :: int

text \<open>
  \<^verbatim>\<open>IPRateLimiter\<close>; the fields \<^verbatim>\<open>r\<close> and \<^verbatim>\<open>b\<close> of the source are
  \<open>rate_r\<close> and \<open>burst_b\<close> here, and the lock is left out. The routine that
  deletes idle entries from the table every ten minutes runs beside the requests and is
  not part of the embedding.
\<close>

record 'l IPRateLimiter =
  ips :: "string \<rightharpoonup> 'l rateLimiterEntry"
  rate_r :: Limit
  burst_b :: int
  whitelist :: "IPNet list"
  blacklist :: "IPNet list"

text \<open>
  The loop of \<^verbatim>\<open>initGlobalLimiter\<close> over a list of the configuration, which the
  source writes once for the allow-list and once for the deny-list: an entry without a
  slash is given the suffix \<^verbatim>\<open>/32\<close>, and an entry that does not parse is left out
  with a warning.
\<close>

definition cidr_text :: "string \<Rightarrow> string" where
  "cidr_text item = (if \<not> Contains item ''/'' then item @ ''/32'' else item)"

fun parse_cidr_list :: "'l lib \<Rightarrow> string list \<Rightarrow> IPNet list" where
  "parse_cidr_list lb [] = []"
| "parse_cidr_list lb (item0 # items) =
     (let item = TrimSpace item0
      in if item \<noteq> [] then
           (case ParseCIDR lb (cidr_text item) of
              Some ipnet \<Rightarrow> ipnet # parse_cidr_list lb items
            | None \<Rightarrow> parse_cidr_list lb items)
         else parse_cidr_list lb items)"

definition initGlobalLimiter :: "'l lib \<Rightarrow> AppConfig \<Rightarrow> 'l IPRateLimiter" where
  "initGlobalLimiter lb cfg =
     (let ratePerSecond =
            PerPeriod (RequestLimit (RateLimit cfg)) (PeriodHours (RateLimit cfg));
          burstSize = (if RequestLimit (RateLimit cfg) < 1 then 1
                       else RequestLimit (RateLimit cfg))
      in \<lparr>ips = Map.empty, rate_r = ratePerSecond, burst_b = burstSize,
          whitelist = parse_cidr_list lb (WhiteList (Security cfg)),
          blacklist = parse_cidr_list lb (BlackList (Security cfg))\<rparr>)"

definition extractIPFromAddress :: "'l lib \<Rightarrow> string \<Rightarrow> string" where
  "extractIPFromAddress lb address =
     (case SplitHostPort lb address of Some (host, port) \<Rightarrow> host | None \<Rightarrow> address)"

text \<open>The address with its last eight bytes set to zero.\<close>

definition prefix64 :: "IP \<Rightarrow> IP" where
  "prefix64 ip = and ip (not (mask 64))"

definition normalizeIPForRateLimit :: "'l lib \<Rightarrow> string \<Rightarrow> string" where
  "normalizeIPForRateLimit lb ipStr =
     (case ParseIP lb ipStr of
        None \<Rightarrow> ipStr
      | Some ip \<Rightarrow>
          if To4 ip \<noteq> None then ipStr
          else IP_String (prefix64 ip) @ ''/64'')"

definition isIPInCIDRList :: "'l lib \<Rightarrow> string \<Rightarrow> IPNet list \<Rightarrow> bool" where
  "isIPInCIDRList lb ip cidrList =
     (case ParseIP lb (extractIPFromAddress lb ip) of
        None \<Rightarrow> False
      | Some parsedIP \<Rightarrow> list_ex (\<lambda>cidr. IPNet_Contains cidr parsedIP) cidrList)"

text \<open>
  The limiter \<^verbatim>\<open>GetLimiter\<close> returns is a pointer: to the bucket of an entry of the
  table, named here by the key of the entry, or to a bucket made for this call alone.
\<close>

datatype 'l limiter_ref = InTable string | Fresh 'l

text \<open>
  \<^verbatim>\<open>GetLimiter\<close> at the time \<open>now\<close>: the limiter (\<open>None\<close> is \<^verbatim>\<open>nil\<close>), whether
  access is allowed, and the limiter table afterwards. The source looks the entry up
  under the read lock and again under the write lock; with nothing running in between
  the lookups agree.
\<close>

definition GetLimiter ::
  "'l lib \<Rightarrow> int \<Rightarrow> 'l IPRateLimiter \<Rightarrow> string
     \<Rightarrow> 'l limiter_ref option \<times> bool \<times> 'l IPRateLimiter" where
  "GetLimiter lb now i ip =
     (let cleanIP = extractIPFromAddress lb ip
      in if isIPInCIDRList lb cleanIP (blacklist i) then (None, False, i)
         else if isIPInCIDRList lb cleanIP (whitelist i)
         then (Some (Fresh (NewLimiter lb RateInf (burst_b i))), True, i)
         else
           (let normalizedIP = normalizeIPForRateLimit lb cleanIP
            in case ips i normalizedIP of
                 Some entry \<Rightarrow>
                   (Some (InTable normalizedIP), True,
                    i\<lparr>ips := (ips i)(normalizedIP \<mapsto> entry\<lparr>lastAccess := now\<rparr>)\<rparr>)
               | None \<Rightarrow>
                   (Some (InTable normalizedIP), True,
                    i\<lparr>ips := (ips i)(normalizedIP \<mapsto>
                           \<lparr>limiter = NewLimiter lb (rate_r i) (burst_b i),
                            lastAccess = now\<rparr>)\<rparr>)))"

text \<open>
  \<^verbatim>\<open>Allow()\<close> on the limiter \<^verbatim>\<open>GetLimiter\<close> returned: a token is taken from the
  bucket the pointer leads to.
\<close>

definition limiter_Allow ::
  "'l lib \<Rightarrow> int \<Rightarrow> 'l IPRateLimiter \<Rightarrow> 'l limiter_ref \<Rightarrow> bool \<times> 'l IPRateLimiter" where
  "limiter_Allow lb now i ref =
     (case ref of
        Fresh l \<Rightarrow> (fst (Allow lb l now), i)
      | InTable key \<Rightarrow>
          (case ips i key of
             None \<Rightarrow> (False, i)
           | Some entry \<Rightarrow>
               (case Allow lb (limiter entry) now of
                  (ok, l') \<Rightarrow> (ok, i\<lparr>ips := (ips i)(key \<mapsto> entry\<lparr>limiter := l'\<rparr>)\<rparr>))))"

subsection \<open>The middleware\<close>

text \<open>
  What the middleware reads of a request: the path, the headers (\<^verbatim>\<open>""\<close> for one
  that is absent) and gin's \<^verbatim>\<open>ClientIP()\<close>. It ends in \<^verbatim>\<open>c.Next()\<close>, which runs
  the handlers, or in \<^verbatim>\<open>c.JSON\<close> with a status and a JSON object followed by
  \<^verbatim>\<open>c.Abort()\<close>, which keeps them from running.
\<close>

record Request =
  Path :: string
  GetHeader :: "string \<Rightarrow> string"
  ClientIP :: string

datatype outcome = Next | AbortJSON nat "(string \<times> string) list"

definition is_exempt :: "string \<Rightarrow> bool" where
  "is_exempt path =
     (path = ''/'' \<or> path = ''/favicon.ico'' \<or> path = ''/images.html''
      \<or> path = ''/search.html'' \<or> HasPrefix path ''/public/'')"

definition first_of_list :: "string \<Rightarrow> string" where
  \<comment> \<open>\<^verbatim>\<open>strings.TrimSpace(strings.Split(s, ",")[0])\<close>\<close>
  "first_of_list s = TrimSpace (case Split s CHR '','' of [] \<Rightarrow> [] | x # xs \<Rightarrow> x)"

definition client_ip :: "Request \<Rightarrow> string" where
  "client_ip req =
     (if GetHeader req ''X-Forwarded-For'' \<noteq> []
      then first_of_list (GetHeader req ''X-Forwarded-For'')
      else if GetHeader req ''X-Real-IP'' \<noteq> [] then GetHeader req ''X-Real-IP''
      else if GetHeader req ''X-Original-Forwarded-For'' \<noteq> []
      then first_of_list (GetHeader req ''X-Original-Forwarded-For'')
      else ClientIP req)"

definition RateLimitMiddleware ::
  "'l lib \<Rightarrow> int \<Rightarrow> 'l IPRateLimiter \<Rightarrow> Request \<Rightarrow> outcome \<times> 'l IPRateLimiter" where
  "RateLimitMiddleware lb now lm req =
     (if is_exempt (Path req) then (Next, lm)
      else
        (let cleanIP = extractIPFromAddress lb (client_ip req)
         in case GetLimiter lb now lm cleanIP of
              (ipLimiter, allowed, lm1) \<Rightarrow>
                if \<not> allowed then (AbortJSON 403 [(''error'', msg_ip_denied)], lm1)
                else
                  (case limiter_Allow lb now lm1 (the ipLimiter) of
                     (ok, lm2) \<Rightarrow>
                       if \<not> ok then (AbortJSON 429 [(''error'', msg_rate_limited)], lm2)
                       else (Next, lm2))))"

subsection \<open>Notions and values used to state and to run the properties of the limiter\<close>

text \<open>
  The address the middleware hands to the limiter is looked at after one more
  \<^verbatim>\<open>extractIPFromAddress\<close> in \<^verbatim>\<open>GetLimiter\<close>; a request is denied when that
  address is in the deny-list.
\<close>

definition resolved_ip :: "'l lib \<Rightarrow> Request \<Rightarrow> string" where
  "resolved_ip lb req = extractIPFromAddress lb (extractIPFromAddress lb (client_ip req))"

definition denied :: "'l lib \<Rightarrow> 'l IPRateLimiter \<Rightarrow> Request \<Rightarrow> bool" where
  "denied lb lm req = isIPInCIDRList lb (resolved_ip lb req) (blacklist lm)"

text \<open>The bucket a limiter returned by \<^verbatim>\<open>GetLimiter\<close> points to.\<close>

definition limiter_of :: "'l IPRateLimiter \<Rightarrow> 'l limiter_ref \<Rightarrow> 'l option" where
  "limiter_of i ref =
     (case ref of Fresh l \<Rightarrow> Some l
      | InTable key \<Rightarrow> map_option limiter (ips i key))"



definition strip0 :: "nat list \<Rightarrow> nat list" where
  "strip0 gs = rev (dropWhile (\<lambda>g. g = 0) (rev gs))"



text \<open>
  The library at the texts used below, with the values Go's package \<^verbatim>\<open>net\<close> gives
  there, and a token bucket that is not refilled: \<open>None\<close> is a bucket without limit,
  \<open>Some n\<close> one with \<open>n\<close> tokens left.
\<close>

definition example_lib :: "nat option lib" where
  "example_lib =
     \<lparr>ParseIP =
        (\<lambda>s. if s = ''2001:db8::1'' then Some 0x20010db8000000000000000000000001
              else if s = ''2001:db8::2'' then Some 0x20010db8000000000000000000000002
              else if s = ''2001:db8:0:1::1'' then Some 0x20010db8000000010000000000000001
              else if s = ''2001:db8:ffff::1'' then Some 0x20010db8ffff00000000000000000001
              else if s = ''192.0.2.7'' then Some 0x00000000000000000000ffffc0000207
              else if s = ''198.51.100.9'' then Some 0x00000000000000000000ffffc6336409
              else None),
      SplitHostPort =
        (\<lambda>s. if s = ''192.0.2.7:4711'' then Some (''192.0.2.7'', ''4711'') else None),
      ParseCIDR =
        (\<lambda>s. if s = ''2001:db8::1/32''
                then Some (Net6 0x20010db8000000000000000000000000
                                0xffffffff000000000000000000000000)
              else if s = ''2001:db8::/64''
                then Some (Net6 0x20010db8000000000000000000000000
                                0xffffffffffffffff0000000000000000)
              else if s = ''198.51.100.9/32'' then Some (Net4 0xc6336409 0xffffffff)
              else None),
      NewLimiter = (\<lambda>r b. case r of RateInf \<Rightarrow> None | PerPeriod n h \<Rightarrow> Some (nat b)),
      Allow = (\<lambda>l now. case l of None \<Rightarrow> (True, None) | Some n \<Rightarrow> (n > 0, Some (n - 1)))\<rparr>"

definition with_security :: "string list \<Rightarrow> string list \<Rightarrow> AppConfig" where
  "with_security wl bl = DefaultConfig\<lparr>Security := \<lparr>WhiteList = wl, BlackList = bl\<rparr>\<rparr>"

definition request_from :: "string \<Rightarrow> Request" where
  "request_from addr =
     \<lparr>Path = ''/v2/library/nginx/manifests/latest'',
      GetHeader = (\<lambda>name. if name = ''X-Forwarded-For'' then addr else []),
      ClientIP = ''203.0.113.1''\<rparr>"

text \<open>A limiter whose table holds one entry, for \<^verbatim>\<open>192.0.2.7\<close>, with an empty bucket.\<close>

definition drained :: "nat option IPRateLimiter" where
  "drained =
     (initGlobalLimiter example_lib DefaultConfig)
       \<lparr>ips := [''192.0.2.7'' \<mapsto> \<lparr>limiter = Some 0, lastAccess = 0\<rparr>]\<rparr>"

section \<open>Properties of the string functions\<close>

lemma HasPrefix_append [simp]: "HasPrefix (p @ s) p"
  by (simp add: HasPrefix_def)

lemma HasPrefix_Cons_single: "HasPrefix (c # cs) [d] = (c = d)"
  by (simp add: HasPrefix_def)

lemma HasPrefix_Nil_single: "HasPrefix [] [d] = False"
  by (simp add: HasPrefix_def)

lemma Index_single_None: "(Index s [c] = None) = (c \<notin> set s)"
  by (induction s) (auto simp: HasPrefix_Cons_single)

lemma Contains_single: "Contains s [c] = (c \<in> set s)"
  by (simp add: Contains_def Index_single_None)

lemma LastIndex_single_None: "(LastIndex s [c] = None) = (c \<notin> set s)"
  by (induction s) (auto simp: HasPrefix_Cons_single split: option.splits)

lemma LastIndex_single_append:
  "c \<notin> set b \<Longrightarrow> LastIndex (a @ c # b) [c] = Some (length a)"
proof (induction a)
  case Nil
  then have "LastIndex b [c] = None" by (simp add: LastIndex_single_None)
  then show ?case by (simp add: HasPrefix_Cons_single)
next
  case (Cons x a)
  then show ?case by simp
qed

lemma LastIndex_single_Some:
  "LastIndex s [c] = Some i \<Longrightarrow> i < length s \<and> s ! i = c \<and> c \<notin> set (drop (Suc i) s)"
proof (induction s arbitrary: i)
  case Nil
  then show ?case by simp
next
  case (Cons x s)
  show ?case
  proof (cases "LastIndex s [c]")
    case None
    with Cons.prems have "x = c" "i = 0"
      by (auto simp: HasPrefix_Cons_single split: if_splits)
    moreover from None have "c \<notin> set s" by (simp add: LastIndex_single_None)
    ultimately show ?thesis by simp
  next
    case (Some j)
    with Cons.prems have i: "i = Suc j" by simp
    from Cons.IH [OF Some] show ?thesis by (simp add: i)
  qed
qed

lemma Split_no_sep: "c \<notin> set s \<Longrightarrow> Split s c = [s]"
  by (induction s) auto

lemma Split_append_sep: "c \<notin> set a \<Longrightarrow> Split (a @ c # b) c = a # Split b c"
  by (induction a) auto

lemma Split_join:
  "segs \<noteq> [] \<Longrightarrow> \<forall>p\<in>set segs. CHR ''/'' \<notin> set p \<Longrightarrow> Split (join_slash segs) CHR ''/'' = segs"
proof (induction segs rule: join_slash.induct)
  case 1
  then show ?case by simp
next
  case (2 p)
  then show ?case by (simp add: Split_no_sep)
next
  case (3 p q ps)
  then show ?case by (simp add: Split_append_sep)
qed

lemma slash_in_join:
  "\<forall>p\<in>set segs. CHR ''/'' \<notin> set p \<Longrightarrow> (CHR ''/'' \<in> set (join_slash segs)) = (length segs \<ge> 2)"
  by (induction segs rule: join_slash.induct) auto

section \<open>Properties of the access controller\<close>

subsection \<open>Parsing an image reference\<close>

lemma join_slash_snoc:
  "front \<noteq> [] \<Longrightarrow> join_slash (front @ [l]) = join_slash front @ CHR ''/'' # l"
  by (induction front rule: join_slash.induct) auto

lemma split_tag_some:
  assumes "CHR '':'' \<notin> set t" "CHR ''/'' \<notin> set t"
  shows "split_tag (n @ CHR '':'' # t) = (t, n)"
  using assms by (simp add: split_tag_def LastIndex_single_append Contains_single)

lemma split_tag_none:
  assumes segs: "segs \<noteq> []" "\<forall>p\<in>set segs. CHR ''/'' \<notin> set p"
    and last: "CHR '':'' \<notin> set (last segs)"
  shows "split_tag (join_slash segs) = ([], join_slash segs)"
proof (cases "LastIndex (join_slash segs) '':''")
  case None
  then show ?thesis by (simp add: split_tag_def)
next
  case (Some idx)
  let ?name = "join_slash segs"
  from LastIndex_single_Some [OF Some]
  have idx: "idx < length ?name" "?name ! idx = CHR '':''" by simp_all
  obtain front l where fl: "segs = front @ [l]"
    using segs(1) by (metis append_butlast_last_id)
  with last have l: "CHR '':'' \<notin> set l" by simp
  have "front \<noteq> []"
  proof
    assume "front = []"
    with fl have "?name = l" by simp
    with idx l show False by (metis nth_mem)
  qed
  then have name: "?name = join_slash front @ CHR ''/'' # l"
    using fl by (simp add: join_slash_snoc)
  have "idx < length (join_slash front)"
  proof (rule ccontr)
    assume "\<not> idx < length (join_slash front)"
    then have ge: "length (join_slash front) \<le> idx" by simp
    show False
    proof (cases "idx = length (join_slash front)")
      case True
      with name idx(2) show False by (simp add: nth_append)
    next
      case False
      with ge have gt: "length (join_slash front) < idx" by simp
      then have "?name ! idx = l ! (idx - Suc (length (join_slash front)))"
        using name by (simp add: nth_append)
      moreover have "idx - Suc (length (join_slash front)) < length l"
        using idx(1) gt name by simp
      ultimately show False using idx(2) l by (metis nth_mem)
    qed
  qed
  then have "CHR ''/'' \<in> set (drop (idx + 1) ?name)"
    using name by simp
  then show ?thesis using Some by (simp add: split_tag_def Contains_single)
qed

lemma split_name_join:
  assumes "segs \<noteq> []" "\<forall>p\<in>set segs. CHR ''/'' \<notin> set p"
  shows "split_name (join_slash segs) = name_of_segments segs"
proof (cases segs)
  case Nil
  with assms show ?thesis by simp
next
  case (Cons p0 r1)
  note c0 = Cons
  show ?thesis
  proof (cases r1)
    case Nil
    with c0 assms show ?thesis
      by (simp add: split_name_def name_of_segments_def Contains_single)
  next
    case (Cons p1 r2)
    have sl: "CHR ''/'' \<in> set (join_slash segs)"
      using slash_in_join [OF assms(2)] c0 Cons by simp
    have sp: "Split (join_slash segs) CHR ''/'' = p0 # p1 # r2"
      using Split_join [OF assms] c0 Cons by simp
    show ?thesis
      unfolding split_name_def name_of_segments_def
      using sl sp c0 Cons by (cases r2) (simp_all add: Contains_single Let_def del: join_slash.simps)
  qed
qed

text \<open>
  Claim C6, as the code has it. Take the image string without a leading
  \<^verbatim>\<open>docker://\<close>. It is a name, made of one or more segments separated by slashes,
  followed or not by a colon and a tag that holds neither a colon nor a slash (when there
  is no such tag, the last segment holds no colon). Then the tag is the text after that
  colon, or \<^verbatim>\<open>latest\<close> when there is none or it is empty; with one segment the
  namespace is \<^verbatim>\<open>library\<close> and the repository is the name, which is the string
  without its tag; the first segment is left out as the upstream host exactly when it
  holds a dot; and the full name is the namespace, a slash and the repository.
\<close>

theorem ParseDockerImage_segments:
  assumes segs: "segs \<noteq> []" "\<forall>p\<in>set segs. CHR ''/'' \<notin> set p"
    and tag: "case tag of None \<Rightarrow> CHR '':'' \<notin> set (last segs)
              | Some t \<Rightarrow> CHR '':'' \<notin> set t \<and> CHR ''/'' \<notin> set t"
    and s: "TrimPrefix s ''docker://'' =
              join_slash segs @ (case tag of None \<Rightarrow> [] | Some t \<Rightarrow> CHR '':'' # t)"
  shows "ParseDockerImage s =
           \<lparr>Namespace = fst (name_of_segments segs),
            Repository = snd (name_of_segments segs),
            Tag = (case tag of None \<Rightarrow> ''latest''
                   | Some t \<Rightarrow> if t = [] then ''latest'' else t),
            FullName = fst (name_of_segments segs) @ ''/'' @ snd (name_of_segments segs)\<rparr>"
proof (cases tag)
  case None
  with s have "TrimPrefix s ''docker://'' = join_slash segs" by simp
  moreover from None tag have "CHR '':'' \<notin> set (last segs)" by simp
  ultimately show ?thesis
    using None split_tag_none [OF segs] split_name_join [OF segs]
    by (simp add: ParseDockerImage_def split_beta)
next
  case (Some t)
  with s have "TrimPrefix s ''docker://'' = join_slash segs @ CHR '':'' # t" by simp
  moreover from Some tag have "CHR '':'' \<notin> set t" "CHR ''/'' \<notin> set t" by simp_all
  ultimately show ?thesis
    using Some split_tag_some [of t "join_slash segs"] split_name_join [OF segs]
    by (simp add: ParseDockerImage_def split_beta)
qed

text \<open>
  Claim C6 as the specification states it fails where the string has a tag: the string
  \<^verbatim>\<open>nginx:1.25\<close> holds no slash, and its repository is \<^verbatim>\<open>nginx\<close>, not the
  whole string.
\<close>

theorem repository_not_whole_string:
  "\<not> Contains ''nginx:1.25'' ''/'' \<and> Repository (ParseDockerImage ''nginx:1.25'') \<noteq> ''nginx:1.25''"
  by code_simp

text \<open>The theorem at \<^verbatim>\<open>docker://ghcr.io/a/b:v1\<close>.\<close>

theorem ParseDockerImage_segments_witness:
  "ParseDockerImage ''docker://ghcr.io/a/b:v1'' =
     \<lparr>Namespace = ''a'', Repository = ''b'', Tag = ''v1'', FullName = ''a/b''\<rparr>"
  using ParseDockerImage_segments
    [of "[''ghcr.io'', ''a'', ''b'']" "Some ''v1''" "''docker://ghcr.io/a/b:v1''"]
  by (simp add: TrimPrefix_def HasPrefix_def name_of_segments_def)

subsection \<open>The allow-list and the deny-list\<close>

lemma matchImageInList_iff:
  "matchImageInList info list = (\<exists>item\<in>set list. image_item_matches info item)"
  by (induction list) auto

lemma checkList_loop_iff:
  "checkList_loop u f list = (\<exists>item\<in>set list. repo_item_matches u f item)"
  by (induction list) auto

lemma checkList_iff:
  "length matches \<ge> 2 \<Longrightarrow>
   checkList matches list =
     (\<exists>item\<in>set list. repo_item_matches (github_user matches) (github_full_repo matches) item)"
  by (simp add: checkList_def checkList_loop_iff github_user_def github_full_repo_def Let_def)

text \<open>
  Claim C2. With a non-empty allow-list, an image none of whose entries matches is not
  allowed by \<^verbatim>\<open>CheckDockerAccess\<close>, and a GitHub target (at least a user and a
  repository) none of whose entries matches is not allowed by \<^verbatim>\<open>CheckGitHubAccess\<close>,
  whatever the deny-list holds; with both lists empty every image and every such GitHub
  target is allowed.
\<close>

theorem allow_list_monotonic:
  "(wl \<noteq> [] \<and> (\<forall>item\<in>set wl. \<not> image_item_matches (ParseDockerImage img) item)
      \<longrightarrow> \<not> fst (CheckDockerAccess \<lparr>WhiteList = wl, BlackList = bl\<rparr> img))
   \<and> (wl \<noteq> [] \<and> length matches \<ge> 2
        \<and> (\<forall>item\<in>set wl.
              \<not> repo_item_matches (github_user matches) (github_full_repo matches) item)
      \<longrightarrow> \<not> fst (CheckGitHubAccess \<lparr>WhiteList = wl, BlackList = bl\<rparr> matches))
   \<and> CheckDockerAccess \<lparr>WhiteList = [], BlackList = []\<rparr> img = (True, [])
   \<and> (length matches \<ge> 2
      \<longrightarrow> CheckGitHubAccess \<lparr>WhiteList = [], BlackList = []\<rparr> matches = (True, []))"
  by (simp add: CheckDockerAccess_def CheckGitHubAccess_def matchImageInList_iff checkList_iff)

text \<open>
  The theorem at the image \<^verbatim>\<open>nginx\<close> with the allow-list \<^verbatim>\<open>library/redis\<close>, and
  at the repository \<^verbatim>\<open>alice/repo\<close> with the allow-list \<^verbatim>\<open>bob\<close>.
\<close>

theorem allow_list_monotonic_witness:
  "\<not> image_item_matches (ParseDockerImage ''nginx'') ''library/redis''
   \<and> \<not> fst (CheckDockerAccess \<lparr>WhiteList = [''library/redis''], BlackList = [''*'']\<rparr> ''nginx'')
   \<and> \<not> repo_item_matches (github_user [''alice'', ''repo''])
         (github_full_repo [''alice'', ''repo'']) ''bob''
   \<and> \<not> fst (CheckGitHubAccess \<lparr>WhiteList = [''bob''], BlackList = []\<rparr> [''alice'', ''repo''])
   \<and> CheckGitHubAccess \<lparr>WhiteList = [], BlackList = []\<rparr> [''alice'', ''repo''] = (True, [])"
proof -
  have a: "\<not> image_item_matches (ParseDockerImage ''nginx'') ''library/redis''"
    by code_simp
  have b: "\<not> repo_item_matches (github_user [''alice'', ''repo''])
         (github_full_repo [''alice'', ''repo'']) ''bob''"
    by code_simp
  show ?thesis
    using a b
      allow_list_monotonic [of "[''library/redis'']" "''nginx''" "[''*'']" "[''alice'', ''repo'']"]
      allow_list_monotonic [of "[''bob'']" "''nginx''" "[]" "[''alice'', ''repo'']"]
    by simp
qed

subsection \<open>The entry forms of the GitHub matcher\<close>

lemma HasPrefix_Cons_hd: "HasPrefix s (c # p) \<Longrightarrow> s \<noteq> [] \<and> hd s = c"
  by (cases s) (auto simp: HasPrefix_def)

lemma star_entry_no_match:
  assumes user: "\<not> HasPrefix user ''*''"
    and item: "HasPrefix (ToLower (TrimSpace item)) ''*/''"
  shows "\<not> repo_item_matches user (user @ ''/'' @ repo) item"
proof -
  define it where "it = ToLower (TrimSpace item)"
  from item obtain r where it: "it = CHR ''*'' # CHR ''/'' # r"
    unfolding it_def [symmetric] HasPrefix_def
    by (cases it; cases "tl it") auto
  define full where "full = user @ ''/'' @ repo"
  have full: "full \<noteq> [] \<and> hd full \<noteq> CHR ''*''"
    using user unfolding full_def by (cases user) (auto simp: HasPrefix_def)
  have pre: "\<not> HasPrefix full (CHR ''*'' # p)" for p
    using full HasPrefix_Cons_hd by blast
  have a: "full \<noteq> it" using full it by auto
  have b: "it \<noteq> user" using user it by (auto simp: HasPrefix_def)
  have c: "it \<noteq> user @ ''/*''" using user it by (cases user) (auto simp: HasPrefix_def)
  have d: "\<not> (HasSuffix it ''*'' \<and> HasPrefix full (TrimSuffix it ''*''))"
  proof
    assume h: "HasSuffix it ''*'' \<and> HasPrefix full (TrimSuffix it ''*'')"
    then have "TrimSuffix it ''*'' = take (length it - 1) it" by (simp add: TrimSuffix_def)
    also have "\<dots> = CHR ''*'' # take (length r) (CHR ''/'' # r)" by (simp add: it)
    finally show False using h pre by simp
  qed
  have e: "\<not> HasPrefix full (it @ ''/'')" using pre it by simp
  show ?thesis
    unfolding repo_item_matches_def it_def [symmetric] full_def [symmetric] Let_def
    using a b c d e by auto
qed

text \<open>
  An entry that begins \<^verbatim>\<open>*/\<close> matches in \<^verbatim>\<open>checkList\<close> only a user whose
  name begins with \<^verbatim>\<open>*\<close>: the loop has no branch for the repo-only wildcard.
\<close>

lemma checkList_star_entries:
  assumes "length matches \<ge> 2"
    and "\<not> HasPrefix (github_user matches) ''*''"
    and "\<forall>item\<in>set list. HasPrefix (ToLower (TrimSpace item)) ''*/''"
  shows "\<not> checkList matches list"
  unfolding checkList_iff [OF assms(1)] github_full_repo_def
  using assms(2,3) star_entry_no_match by blast

text \<open>
  Claim C3. The claim says that \<^verbatim>\<open>CheckGitHubAccess\<close> takes the entry forms of the
  image matcher, the repo-only wildcards among them. The code does not: both matchers
  read the same two lists of \<^verbatim>\<open>cfg.Proxy\<close>, \<^verbatim>\<open>matchImageInList\<close> takes the
  entries \<^verbatim>\<open>*/repo\<close> and \<^verbatim>\<open>*/repo*\<close> for any namespace, and \<^verbatim>\<open>checkList\<close>,
  the same loop without that branch, does not take them for the user \<^verbatim>\<open>alice\<close>. With
  the deny-list \<^verbatim>\<open>*/malware\<close> the image \<^verbatim>\<open>alice/malware\<close> is refused and the
  GitHub repository \<^verbatim>\<open>alice/malware\<close> is let through; with the allow-list
  \<^verbatim>\<open>*/repo\<close> the repository \<^verbatim>\<open>alice/repo\<close> is refused.
\<close>

theorem checkList_misses_repo_wildcard:
  "matchImageInList (ParseDockerImage ''alice/repo'') [''*/repo'']
   \<and> \<not> checkList [''alice'', ''repo''] [''*/repo'']
   \<and> matchImageInList (ParseDockerImage ''alice/repo-fork'') [''*/repo*'']
   \<and> \<not> checkList [''alice'', ''repo-fork''] [''*/repo*'']
   \<and> \<not> fst (CheckDockerAccess \<lparr>WhiteList = [], BlackList = [''*/malware'']\<rparr> ''alice/malware'')
   \<and> fst (CheckGitHubAccess \<lparr>WhiteList = [], BlackList = [''*/malware'']\<rparr>
          [''alice'', ''malware''])
   \<and> \<not> fst (CheckGitHubAccess \<lparr>WhiteList = [''*/repo''], BlackList = []\<rparr> [''alice'', ''repo''])"
  by code_simp

subsection \<open>Letter case in the image matcher\<close>

text \<open>
  Claim C7. The entry \<^verbatim>\<open>*/ngi*\<close> matches the image \<^verbatim>\<open>nginx\<close> and does not match
  the image \<^verbatim>\<open>Nginx\<close>: for the form \<^verbatim>\<open>*/repo*\<close> the source compares the
  repository as it was given with the lower-cased entry, where the form
  \<^verbatim>\<open>*/repo\<close> beside it lower-cases the repository first. A deny-list with that entry
  lets \<^verbatim>\<open>Nginx\<close> through.
\<close>

theorem matchImageInList_repo_prefix_case_sensitive:
  "matchImageInList (ParseDockerImage ''nginx'') [''*/ngi*'']
   \<and> \<not> matchImageInList (ParseDockerImage ''Nginx'') [''*/ngi*'']
   \<and> matchImageInList (ParseDockerImage ''Nginx'') [''*/nginx'']
   \<and> fst (CheckDockerAccess \<lparr>WhiteList = [], BlackList = [''*/ngi*'']\<rparr> ''Nginx'')
   \<and> \<not> fst (CheckDockerAccess \<lparr>WhiteList = [], BlackList = [''*/ngi*'']\<rparr> ''nginx'')"
  by code_simp

section \<open>Properties of the URL patterns\<close>

lemma rmatch_Bol_Suc: "rmatch (Cat Bol r) (Suc pos, s, caps) = []"
  by simp

lemma find_from_Bol_Suc: "find_from (Cat Bol r) (Suc pos) s = None"
  by (induction s arbitrary: pos) simp_all

lemma find_from_Bol:
  "find_from (Cat Bol r) 0 s =
     (case rmatch (Cat Bol r) (0, s, []) of [] \<Rightarrow> None | st # _ \<Rightarrow> Some (0, st))"
  by (cases s) (simp_all add: find_from_Bol_Suc split: list.splits)

lemma FindStringSubmatch_length:
  "FindStringSubmatch r s = Some m \<Longrightarrow> length m = Suc (NumSubexp r)"
  by (auto simp: FindStringSubmatch_def split: option.splits)

lemma HasPrefix_Cons_Cons: "HasPrefix (c # s) (d # p) = (c = d \<and> HasPrefix s p)"
  by (auto simp: HasPrefix_def)

lemma HasPrefix_Nil_Cons: "HasPrefix [] (d # p) = False"
  by (simp add: HasPrefix_def)

lemma HasPrefix_Nil [simp]: "HasPrefix s [] = True"
  by (simp add: HasPrefix_def)

lemma HasPrefix_ConsD: "HasPrefix s (d # p) \<Longrightarrow> \<exists>t. s = d # t \<and> HasPrefix t p"
  by (cases s) (auto simp: HasPrefix_Cons_Cons HasPrefix_Nil_Cons)

text \<open>A pattern that begins \<^verbatim>\<open>^(?:https?://)?\<close> and a literal matches only a text
  that begins with the literal, after the scheme or without it.\<close>

lemma rmatch_scheme_cases:
  assumes "rmatch (Cat scheme r) (pos, u, caps) \<noteq> []"
  shows "rmatch r (pos, u, caps) \<noteq> []
       \<or> (\<exists>t p. u = ''http://'' @ t \<and> rmatch r (p, t, caps) \<noteq> [])
       \<or> (\<exists>t p. u = ''https://'' @ t \<and> rmatch r (p, t, caps) \<noteq> [])"
  using assms unfolding scheme_def cat_def
  by (auto split: if_splits dest!: HasPrefix_ConsD simp: HasPrefix_Cons_Cons)


lemma rmatch_head:
  assumes "rmatch (cat (Bol # scheme # Lit l # rs)) (0, u, []) \<noteq> []"
  shows "HasPrefix u l \<or> (\<exists>t. u = ''http://'' @ t \<and> HasPrefix t l)
       \<or> (\<exists>t. u = ''https://'' @ t \<and> HasPrefix t l)"
proof -
  let ?rest = "cat (Lit l # rs)"
  have c: "cat (Bol # scheme # Lit l # rs) = Cat Bol (Cat scheme ?rest)"
    by (simp add: cat_def)
  have lit: "rmatch ?rest (p, t, caps) \<noteq> [] \<Longrightarrow> HasPrefix t l" for p t caps
    by (simp add: cat_def split: if_splits)
  have "rmatch (Cat scheme ?rest) (0, u, []) \<noteq> []"
    using assms unfolding c by simp
  from rmatch_scheme_cases [OF this] lit show ?thesis by blast
qed

lemma FindStringSubmatch_head:
  assumes "FindStringSubmatch (cat (Bol # scheme # Lit l # rs)) u \<noteq> None"
  shows "HasPrefix u l \<or> (\<exists>t. u = ''http://'' @ t \<and> HasPrefix t l)
       \<or> (\<exists>t. u = ''https://'' @ t \<and> HasPrefix t l)"
proof -
  have c: "cat (Bol # scheme # Lit l # rs) = Cat Bol (cat (scheme # Lit l # rs))"
    by (simp add: cat_def)
  have "rmatch (cat (Bol # scheme # Lit l # rs)) (0, u, []) \<noteq> []"
    using assms unfolding FindStringSubmatch_def c find_from_Bol
    by (auto split: list.splits)
  then show ?thesis by (rule rmatch_head)
qed

lemma gist_not_github:
  assumes g: "HasPrefix u ''gist.github'' \<or> (\<exists>t. u = ''http://'' @ t \<and> HasPrefix t ''gist.github'')
       \<or> (\<exists>t. u = ''https://'' @ t \<and> HasPrefix t ''gist.github'')"
  shows "\<not> (HasPrefix u ''github.com/'' \<or> (\<exists>t. u = ''http://'' @ t \<and> HasPrefix t ''github.com/'')
       \<or> (\<exists>t. u = ''https://'' @ t \<and> HasPrefix t ''github.com/''))"
    and "\<not> (HasPrefix u ''raw.github'' \<or> (\<exists>t. u = ''http://'' @ t \<and> HasPrefix t ''raw.github'')
       \<or> (\<exists>t. u = ''https://'' @ t \<and> HasPrefix t ''raw.github''))"
  using g by (auto dest!: HasPrefix_ConsD simp: HasPrefix_Cons_Cons)

section \<open>Properties of the generic URL proxy\<close>

subsection \<open>Targets on the gist hosts\<close>

lemma exps_nth:
  "exps ! 0 = cat [Bol, scheme, Lit ''github.com/'', seg 1, Lit ''/'', seg 2, Lit ''/'',
          Alt (Lit ''releases'') (Lit ''archive''), Lit ''/'', Rep AnyChar 0 True, Eol]"
  "exps ! 1 = cat [Bol, scheme, Lit ''github.com/'', seg 1, Lit ''/'', seg 2, Lit ''/'',
          Alt (Lit ''blob'') (Lit ''raw''), Lit ''/'', Rep AnyChar 0 True, Eol]"
  "exps ! 2 = cat [Bol, scheme, Lit ''github.com/'', seg 1, Lit ''/'', seg 2, Lit ''/'',
          Alt (Lit ''info'') (Lit ''git-''), Rep AnyChar 0 True, Eol]"
  "exps ! 3 = cat [Bol, scheme, Lit ''raw.github'', usercontent, Lit ''.com/'', seg 1, Lit ''/'',
          seg 2, Lit ''/'', Rep AnyChar 1 False, Lit ''/'', Rep AnyChar 1 True, Eol]"
  "exps ! 4 = cat [Bol, scheme, Lit ''gist.github'', usercontent, Lit ''.com/'', seg 1, Lit ''/'',
          Rep AnyChar 1 False, Lit ''/'', Rep AnyChar 1 True]"
  by (simp_all add: exps_def)

lemma NumSubexp_gist: "NumSubexp (exps ! 4) = 1"
  by (simp add: exps_nth cat_def seg_def usercontent_def scheme_def)

lemma checkURL_gist:
  assumes "FindStringSubmatch (exps ! 4) u = Some m"
  shows "checkURL u = Some (tl m) \<and> length (tl m) = 1"
proof -
  from assms have h: "FindStringSubmatch (exps ! 4) u \<noteq> None" by simp
  note g = FindStringSubmatch_head [OF h [unfolded exps_nth]]
  have n0: "FindStringSubmatch (exps ! 0) u = None"
    using FindStringSubmatch_head [of "''github.com/''" _ u] gist_not_github(1) [OF g]
    unfolding exps_nth by blast
  have n1: "FindStringSubmatch (exps ! 1) u = None"
    using FindStringSubmatch_head [of "''github.com/''" _ u] gist_not_github(1) [OF g]
    unfolding exps_nth by blast
  have n2: "FindStringSubmatch (exps ! 2) u = None"
    using FindStringSubmatch_head [of "''github.com/''" _ u] gist_not_github(1) [OF g]
    unfolding exps_nth by blast
  have n3: "FindStringSubmatch (exps ! 3) u = None"
    using FindStringSubmatch_head [of "''raw.github''" _ u] gist_not_github(2) [OF g]
    unfolding exps_nth by blast
  obtain e0 e1 e2 e3 e4 rest where e: "exps = e0 # e1 # e2 # e3 # e4 # rest"
    by (simp add: exps_def)
  have nth: "exps ! 0 = e0" "exps ! 1 = e1" "exps ! 2 = e2" "exps ! 3 = e3" "exps ! 4 = e4"
    unfolding e by simp_all
  have "checkURL u = Some (tl m)"
    using n0 n1 n2 n3 assms unfolding nth checkURL_def e by simp
  moreover have "length (tl m) = 1"
    using FindStringSubmatch_length [OF assms] NumSubexp_gist by simp
  ultimately show ?thesis by simp
qed

text \<open>
  Claim C10. When the target of a request (the request URI without its leading slashes,
  the scheme completed) matches the pattern of the gist hosts, the handler answers 403
  with the message of \<^verbatim>\<open>CheckGitHubAccess\<close> for fewer than two groups, sends no
  request upstream and leaves the world as it was, for every configuration; and that
  pattern, the fifth, is the only one of the table with fewer than two groups.
\<close>

theorem gist_always_forbidden:
  "(FindStringSubmatch (exps ! 4)
      (complete_scheme (strip_slashes (TrimPrefix requestURI ''/''))) \<noteq> None
    \<longrightarrow> handler env w c requestURI = (c_String 403 msg_invalid_github_format c, [], w))
   \<and> filter (\<lambda>i. NumSubexp (exps ! i) < 2) [0 ..< length exps] = [4]"
proof (intro conjI impI)
  assume "FindStringSubmatch (exps ! 4)
      (complete_scheme (strip_slashes (TrimPrefix requestURI ''/''))) \<noteq> None"
  then obtain m where "FindStringSubmatch (exps ! 4)
      (complete_scheme (strip_slashes (TrimPrefix requestURI ''/''))) = Some m"
    by blast
  from checkURL_gist [OF this]
  show "handler env w c requestURI = (c_String 403 msg_invalid_github_format c, [], w)"
    by (simp add: handler_def CheckGitHubAccess_def)
next
  show "filter (\<lambda>i. NumSubexp (exps ! i) < 2) [0 ..< length exps] = [4]"
    by code_simp
qed

text \<open>The theorem at \<^verbatim>\<open>/https://gist.github.com/u/abc/raw\<close>, with empty lists.\<close>

theorem gist_always_forbidden_witness:
  "FindStringSubmatch (exps ! 4)
      (complete_scheme (strip_slashes (TrimPrefix ''/https://gist.github.com/u/abc/raw'' ''/'')))
     \<noteq> None
   \<and> handler redirecting_env 0 fresh_context ''/https://gist.github.com/u/abc/raw'' =
       (c_String 403 msg_invalid_github_format fresh_context, [], 0)"
proof -
  have a: "FindStringSubmatch (exps ! 4)
      (complete_scheme (strip_slashes (TrimPrefix ''/https://gist.github.com/u/abc/raw'' ''/'')))
     \<noteq> None"
    by code_simp
  show ?thesis
    using a conjunct1 [OF gist_always_forbidden
        [of "''/https://gist.github.com/u/abc/raw''" redirecting_env 0 fresh_context]]
    by simp
qed

subsection \<open>The bound on redirects\<close>

lemma proxyWithRedirect_requests:
  "length (fst (snd (proxyWithRedirect env w c u redirectCount))) \<le> 21 - redirectCount"
proof (induction env w c u redirectCount rule: proxyWithRedirect.induct)
  case (1 env w c u redirectCount)
  show ?case
  proof (cases "redirectCount > maxRedirects")
    case True
    then show ?thesis by (subst proxyWithRedirect.simps) simp
  next
    case False
    then have le: "redirectCount \<le> 20" by (simp add: maxRedirects_def)
    show ?thesis
    proof (cases "NewRequest env u")
      case (Some err)
      with False show ?thesis by (subst proxyWithRedirect.simps) simp
    next
      case None
      obtain r w1 where d: "Do env w u = (r, w1)" by (cases "Do env w u")
      show ?thesis
      proof (cases r)
        case (Inl err)
        with False None d le show ?thesis by (subst proxyWithRedirect.simps) simp
      next
        case (Inr resp)
        show ?thesis
        proof (cases "too_large env resp")
          case True
          with False None d Inr le show ?thesis by (subst proxyWithRedirect.simps) simp
        next
          case nl: False
          define hdr0 where "hdr0 = strip_security (RespHeader resp)"
          define bh where "bh = (if HasSuffix (ToLower u) ''.sh'' then shell_body env resp hdr0
                            else (RespBody resp, hdr0))"
          obtain body hdr where bh': "bh = (body, hdr)" by (cases bh)
          define c1 where "c1 = copy_headers hdr c"
          define location where "location = header_Get hdr ''Location''"
          show ?thesis
          proof (cases "location \<noteq> [] \<and> checkURL location = None")
            case True
            have ih: "length (fst (snd (proxyWithRedirect env w1 c1 location (redirectCount + 1))))
                    \<le> 21 - (redirectCount + 1)"
              using "1.IH" [OF False None d [symmetric] Inr nl hdr0_def bh_def bh' [symmetric]
                  c1_def location_def True]
              by simp
            show ?thesis
              apply (subst proxyWithRedirect.simps)
              using False None d Inr nl True le ih
                bh' [unfolded bh_def hdr0_def]
              by (auto simp add: Let_def c1_def location_def split: prod.splits)
          next
            case nr: False
            show ?thesis
              apply (subst proxyWithRedirect.simps)
              using False None d Inr nl nr le
                bh' [unfolded bh_def hdr0_def]
              by (auto simp add: Let_def c1_def location_def split: prod.splits)
          qed
        qed
      qed
    qed
  qed
qed


text \<open>
  Claim C1, as the code has it. A request handled by the proxy sends at most 21 requests
  upstream, the first and at most 20 for the redirects it follows; and once the count of
  redirects is above 20, \<^verbatim>\<open>proxyWithRedirect\<close> answers 508 with its message, sends no
  request and leaves the world as it was.
\<close>

theorem redirect_bound:
  "length (fst (snd (proxyRequest env w c u))) \<le> 21
   \<and> (redirectCount > 20 \<longrightarrow>
        proxyWithRedirect env w c u redirectCount =
          (c_String 508 msg_too_many_redirects c, [], w))"
proof
  show "length (fst (snd (proxyRequest env w c u))) \<le> 21"
    using proxyWithRedirect_requests [of env w c u 0] by (simp add: proxyRequest_def)
next
  show "redirectCount > 20 \<longrightarrow>
        proxyWithRedirect env w c u redirectCount =
          (c_String 508 msg_too_many_redirects c, [], w)"
    by (subst proxyWithRedirect.simps) (simp add: maxRedirects_def)
qed

text \<open>The theorem at the count 21.\<close>

theorem redirect_bound_witness:
  "(21::nat) > 20
   \<and> proxyWithRedirect redirecting_env 0 fresh_context ''https://example.com/next'' 21 =
       (c_String 508 msg_too_many_redirects fresh_context, [], 0)
   \<and> Status (c_String 508 msg_too_many_redirects fresh_context) = 508"
  using redirect_bound [of redirecting_env 0 fresh_context "''https://example.com/next''" 21]
  by (simp add: c_String_def c_Status_def c_Write_def c_Header_def Let_def)

text \<open>
  Claim C1 as the specification states it fails: against an upstream that always
  redirects, one request to the proxy sends 21 requests upstream before the answer 508,
  and the text written is longer than the message of the specification.
\<close>

theorem twenty_one_requests:
  "length (fst (snd (handler redirecting_env 0 fresh_context
       ''/https://github.com/u/r/releases/download/v1/x.tar.gz''))) = 21
   \<and> Status (fst (handler redirecting_env 0 fresh_context
       ''/https://github.com/u/r/releases/download/v1/x.tar.gz'')) = 508
   \<and> Written (fst (handler redirecting_env 0 fresh_context
       ''/https://github.com/u/r/releases/download/v1/x.tar.gz'')) \<noteq> spec_msg_redirects"
proof -
  have run: "handler redirecting_env 0 fresh_context
       ''/https://github.com/u/r/releases/download/v1/x.tar.gz'' =
     (\<lparr>Status = 508,
       OutHeader = [(''Location'', ''https://example.com/next''),
                    (''Content-Type'', ''text/plain; charset=utf-8'')],
       Written = msg_too_many_redirects\<rparr>,
      ''https://github.com/u/r/releases/download/v1/x.tar.gz'' #
      replicate 20 ''https://example.com/next'', 21)"
    by code_simp
  have msg: "msg_too_many_redirects \<noteq> spec_msg_redirects"
    by (simp add: msg_too_many_redirects_def spec_msg_redirects_def)
  show ?thesis unfolding run using msg by simp
qed

section \<open>Properties of the configuration store\<close>

lemma GetConfig_consistent:
  assumes "cache_consistent st"
  shows "fst (GetConfig now st) = published st"
    and "cache_consistent (snd (GetConfig now st))"
    and "appConfig (snd (GetConfig now st)) = appConfig st"
  using assms
  by (auto simp: GetConfig_def cache_consistent_def published_def split: option.splits if_splits)

text \<open>
  Every operation leaves the cache consistent, and the store begins so: the hypothesis
  of consistency below holds of every state the program reaches.
\<close>

lemma cache_consistent_kept:
  "cache_consistent initial_store"
  "cache_consistent (setConfig cfg st)"
  "cache_consistent st \<Longrightarrow> cache_consistent (fst (hotReloadWithViper s st))"
  "cache_consistent st \<Longrightarrow> LoadConfig s st = Inr st' \<Longrightarrow> cache_consistent st'"
  by (auto simp: initial_store_def setConfig_def cache_consistent_def published_def
        hotReloadWithViper_def LoadConfig_def split: sum.splits option.splits)

lemma published_setConfig: "published (setConfig cfg st) = cfg"
  by (simp add: setConfig_def published_def)

lemma GetConfig_calls_published:
  "cache_consistent st \<Longrightarrow> GetConfig_calls nows st = replicate (length nows) (published st)"
proof (induction nows arbitrary: st)
  case Nil
  then show ?case by simp
next
  case (Cons now nows)
  obtain cfg st' where g: "GetConfig now st = (cfg, st')" by (cases "GetConfig now st")
  from GetConfig_consistent [OF Cons.prems, of now] g
  have "cfg = published st" "cache_consistent st'" "published st' = published st"
    by (simp_all add: published_def)
  with Cons.IH [of st'] g show ?case by simp
qed

text \<open>
  Claim C8. When the parser fails during a hot reload, \<^verbatim>\<open>hotReloadWithViper\<close> leaves
  every variable of the store as it was (\<^verbatim>\<open>setConfig\<close> would have emptied the cache)
  and does not start the update of the components; and every call of \<^verbatim>\<open>GetConfig\<close>
  after it, at whatever times, returns the snapshot that was published before.
\<close>

theorem failed_reload_keeps_config:
  "ViperUnmarshal s DefaultConfig = Inl err \<longrightarrow>
     hotReloadWithViper s st = (st, False)
     \<and> (cache_consistent st \<longrightarrow>
          GetConfig_calls nows (fst (hotReloadWithViper s st)) =
            replicate (length nows) (published st))"
proof (intro impI conjI)
  assume f: "ViperUnmarshal s DefaultConfig = Inl err"
  then show r: "hotReloadWithViper s st = (st, False)"
    by (simp add: hotReloadWithViper_def)
  assume "cache_consistent st"
  then show "GetConfig_calls nows (fst (hotReloadWithViper s st)) =
            replicate (length nows) (published st)"
    unfolding r by (simp add: GetConfig_calls_published)
qed

text \<open>
  The theorem at a store where a configuration with an allow-list was published and
  read once, a file that does not parse, and two later calls of \<^verbatim>\<open>GetConfig\<close>, one
  within the life of the cache and one after it.
\<close>

theorem failed_reload_keeps_config_witness:
  "ViperUnmarshal broken_file_sys DefaultConfig
     = Inl ''While parsing config: toml: incomplete array''
   \<and> cache_consistent
       (snd (GetConfig 0 (setConfig (with_security [''10.0.0.0/8''] []) initial_store)))
   \<and> hotReloadWithViper broken_file_sys
       (snd (GetConfig 0 (setConfig (with_security [''10.0.0.0/8''] []) initial_store)))
     = (snd (GetConfig 0 (setConfig (with_security [''10.0.0.0/8''] []) initial_store)), False)
   \<and> GetConfig_calls [1, 6000000000]
       (fst (hotReloadWithViper broken_file_sys
         (snd (GetConfig 0 (setConfig (with_security [''10.0.0.0/8''] []) initial_store)))))
     = [with_security [''10.0.0.0/8''] [], with_security [''10.0.0.0/8''] []]"
proof -
  let ?st = "snd (GetConfig 0 (setConfig (with_security [''10.0.0.0/8''] []) initial_store))"
  have f: "ViperUnmarshal broken_file_sys DefaultConfig
     = Inl ''While parsing config: toml: incomplete array''"
    by (simp add: broken_file_sys_def)
  have c: "cache_consistent ?st"
    by (intro GetConfig_consistent(2) cache_consistent_kept(2))
  have p: "published ?st = with_security [''10.0.0.0/8''] []"
    by (simp add: GetConfig_def setConfig_def initial_store_def published_def)
  have e: "replicate (length [1 :: int, 6000000000]) x = [x, x]" for x :: AppConfig
    by simp
  note t = mp [OF failed_reload_keeps_config
      [of broken_file_sys "''While parsing config: toml: incomplete array''" ?st
          "[1, 6000000000]"] f]
  from t have r: "hotReloadWithViper broken_file_sys ?st = (?st, False)"
    by (rule conjunct1)
  from t c have "GetConfig_calls [1, 6000000000] (fst (hotReloadWithViper broken_file_sys ?st))
      = replicate (length [1 :: int, 6000000000]) (published ?st)"
    by blast
  then have g: "GetConfig_calls [1, 6000000000] (fst (hotReloadWithViper broken_file_sys ?st))
      = [with_security [''10.0.0.0/8''] [], with_security [''10.0.0.0/8''] []]"
    unfolding p e .
  from f c r g show ?thesis by blast
qed

section \<open>Properties of the rate limiter\<close>

subsection \<open>The first 64 bits of an address\<close>






subsection \<open>Hexadecimal groups joined by colons\<close>
















subsection \<open>The middleware\<close>

lemma GetLimiter_denied:
  "isIPInCIDRList lb (extractIPFromAddress lb ip) (blacklist lm) \<Longrightarrow>
   GetLimiter lb now lm ip = (None, False, lm)"
  by (simp add: GetLimiter_def)

lemma GetLimiter_not_denied:
  assumes "\<not> isIPInCIDRList lb (extractIPFromAddress lb ip) (blacklist lm)"
  shows "\<exists>ref lm1 l. GetLimiter lb now lm ip = (Some ref, True, lm1)
           \<and> limiter_of lm1 ref = Some l"
  using assms
  by (auto simp: GetLimiter_def limiter_of_def Let_def split: option.splits)

lemma limiter_Allow_fst:
  "limiter_of lm1 ref = Some l \<Longrightarrow> fst (limiter_Allow lb now lm1 ref) = fst (Allow lb l now)"
  by (auto simp: limiter_of_def limiter_Allow_def split: limiter_ref.splits option.splits prod.splits)

text \<open>
  Claim C9. For a request whose path is not exempt: when the resolved client address is
  in the deny-list, the middleware answers 403 with the JSON object whose field
  \<^verbatim>\<open>error\<close> is the message of the source, aborts, and leaves the limiter as it was;
  when it is not, \<^verbatim>\<open>GetLimiter\<close> allows the request and returns a bucket, and when
  \<^verbatim>\<open>Allow\<close> finds no token in that bucket the middleware answers 429 with the
  message of the source and aborts (and goes on to the handlers when it finds one).
\<close>

theorem middleware_rejections:
  "\<not> is_exempt (Path req) \<longrightarrow>
     (denied lb lm req \<longrightarrow>
        RateLimitMiddleware lb now lm req = (AbortJSON 403 [(''error'', msg_ip_denied)], lm))
     \<and> (\<not> denied lb lm req \<longrightarrow>
          (\<exists>ref lm1 l.
             GetLimiter lb now lm (extractIPFromAddress lb (client_ip req)) = (Some ref, True, lm1)
             \<and> limiter_of lm1 ref = Some l
             \<and> (\<not> fst (Allow lb l now) \<longrightarrow>
                  fst (RateLimitMiddleware lb now lm req) =
                    AbortJSON 429 [(''error'', msg_rate_limited)])
             \<and> (fst (Allow lb l now) \<longrightarrow> fst (RateLimitMiddleware lb now lm req) = Next)))"
proof (intro impI conjI)
  assume ne: "\<not> is_exempt (Path req)" and d: "denied lb lm req"
  from d have "GetLimiter lb now lm (extractIPFromAddress lb (client_ip req)) = (None, False, lm)"
    unfolding denied_def resolved_ip_def by (rule GetLimiter_denied)
  with ne show "RateLimitMiddleware lb now lm req = (AbortJSON 403 [(''error'', msg_ip_denied)], lm)"
    by (simp add: RateLimitMiddleware_def)
next
  assume ne: "\<not> is_exempt (Path req)" and nd: "\<not> denied lb lm req"
  let ?ip = "extractIPFromAddress lb (client_ip req)"
  from nd obtain ref lm1 l where g: "GetLimiter lb now lm ?ip = (Some ref, True, lm1)"
      and l: "limiter_of lm1 ref = Some l"
    unfolding denied_def resolved_ip_def using GetLimiter_not_denied by blast
  obtain ok lm2 where a: "limiter_Allow lb now lm1 ref = (ok, lm2)"
    by (cases "limiter_Allow lb now lm1 ref")
  with limiter_Allow_fst [OF l, of lb now] have ok: "ok = fst (Allow lb l now)" by simp
  have "(\<not> fst (Allow lb l now) \<longrightarrow>
          fst (RateLimitMiddleware lb now lm req) = AbortJSON 429 [(''error'', msg_rate_limited)])
      \<and> (fst (Allow lb l now) \<longrightarrow> fst (RateLimitMiddleware lb now lm req) = Next)"
    using ne g a ok by (simp add: RateLimitMiddleware_def)
  with g l show "\<exists>ref lm1 l.
       GetLimiter lb now lm ?ip = (Some ref, True, lm1) \<and> limiter_of lm1 ref = Some l
       \<and> (\<not> fst (Allow lb l now) \<longrightarrow>
            fst (RateLimitMiddleware lb now lm req) = AbortJSON 429 [(''error'', msg_rate_limited)])
       \<and> (fst (Allow lb l now) \<longrightarrow> fst (RateLimitMiddleware lb now lm req) = Next)"
    by blast
qed

subsection \<open>The key of an IPv6 address\<close>



lemma set_strip0: "set (strip0 gs) \<subseteq> set gs"
  unfolding strip0_def using set_dropWhileD by fastforce






subsection \<open>The limiter at concrete addresses\<close>






text \<open>
  Whatever the library, an entry without a slash is parsed with the suffix
  \<^verbatim>\<open>/32\<close>, an IPv6 address like an IPv4 one.
\<close>

lemma parse_cidr_list_single:
  assumes "TrimSpace item \<noteq> []" "\<not> Contains (TrimSpace item) ''/''"
  shows "parse_cidr_list lb [item] =
           (case ParseCIDR lb (TrimSpace item @ ''/32'') of None \<Rightarrow> [] | Some ipnet \<Rightarrow> [ipnet])"
  using assms by (simp add: cidr_text_def split: option.splits)

text \<open>
  Claim C5. The entry \<^verbatim>\<open>2001:db8::1\<close>, an IPv6 address without a slash, is given the
  suffix \<^verbatim>\<open>/32\<close> like every other entry, and not \<^verbatim>\<open>/128\<close>: the network of the
  allow-list built from it is \<^verbatim>\<open>2001:db8::/32\<close>, which holds the other address
  \<^verbatim>\<open>2001:db8:ffff::1\<close>, and the limiter serves that address as one of the allow-list.
\<close>

theorem single_ipv6_entry_covers_slash32:
  "cidr_text ''2001:db8::1'' = ''2001:db8::1/32''
   \<and> whitelist (initGlobalLimiter example_lib (with_security [''2001:db8::1''] []))
     = [Net6 0x20010db8000000000000000000000000 0xffffffff000000000000000000000000]
   \<and> ParseIP example_lib ''2001:db8:ffff::1'' = Some 0x20010db8ffff00000000000000000001
   \<and> isIPInCIDRList example_lib ''2001:db8:ffff::1''
       (whitelist (initGlobalLimiter example_lib (with_security [''2001:db8::1''] [])))
   \<and> fst (GetLimiter example_lib 0
           (initGlobalLimiter example_lib (with_security [''2001:db8::1''] []))
           ''2001:db8:ffff::1'') = Some (Fresh None)"
  by code_simp

text \<open>
  The theorem of claim C9 at a request from \<^verbatim>\<open>198.51.100.9\<close>, which is in the
  deny-list, and at a request from \<^verbatim>\<open>192.0.2.7\<close>, whose bucket is empty.
\<close>

theorem middleware_rejections_witness:
  "\<not> is_exempt (Path (request_from ''198.51.100.9, 10.0.0.1''))
   \<and> denied example_lib (initGlobalLimiter example_lib (with_security [] [''198.51.100.9'']))
       (request_from ''198.51.100.9, 10.0.0.1'')
   \<and> RateLimitMiddleware example_lib 0
       (initGlobalLimiter example_lib (with_security [] [''198.51.100.9'']))
       (request_from ''198.51.100.9, 10.0.0.1'')
     = (AbortJSON 403 [(''error'', msg_ip_denied)],
        initGlobalLimiter example_lib (with_security [] [''198.51.100.9'']))
   \<and> \<not> denied example_lib drained (request_from ''192.0.2.7:4711'')
   \<and> fst (RateLimitMiddleware example_lib 5 drained (request_from ''192.0.2.7:4711''))
     = AbortJSON 429 [(''error'', msg_rate_limited)]"
proof -
  let ?lmB = "initGlobalLimiter example_lib (with_security [] [''198.51.100.9''])"
  let ?rB = "request_from ''198.51.100.9, 10.0.0.1''"
  let ?rE = "request_from ''192.0.2.7:4711''"
  have ne: "\<not> is_exempt (Path ?rB)" "\<not> is_exempt (Path ?rE)" by code_simp+
  have d: "denied example_lib ?lmB ?rB" by code_simp
  have nd: "\<not> denied example_lib drained ?rE" by code_simp
  from middleware_rejections [of ?rB example_lib ?lmB 0] ne d
  have a: "RateLimitMiddleware example_lib 0 ?lmB ?rB
     = (AbortJSON 403 [(''error'', msg_ip_denied)], ?lmB)"
    by blast
  from middleware_rejections [of ?rE example_lib drained 5] ne nd
  obtain ref lm1 l where
    g: "GetLimiter example_lib 5 drained (extractIPFromAddress example_lib (client_ip ?rE))
          = (Some ref, True, lm1)"
    and l: "limiter_of lm1 ref = Some l"
    and r: "\<not> fst (Allow example_lib l 5) \<longrightarrow>
            fst (RateLimitMiddleware example_lib 5 drained ?rE)
              = AbortJSON 429 [(''error'', msg_rate_limited)]"
    by blast
  have "limiter_of (snd (snd (GetLimiter example_lib 5 drained
          (extractIPFromAddress example_lib (client_ip ?rE)))))
        (the (fst (GetLimiter example_lib 5 drained
          (extractIPFromAddress example_lib (client_ip ?rE))))) = Some (Some 0)"
    by code_simp
  with g l have "l = Some 0" by simp
  then have "\<not> fst (Allow example_lib l 5)" by (simp add: example_lib_def)
  with r have b: "fst (RateLimitMiddleware example_lib 5 drained ?rE)
              = AbortJSON 429 [(''error'', msg_rate_limited)]"
    by simp
  from ne d a nd b show ?thesis by blast
qed

end
